theory Spec2Isabelle
  imports Complex_Main "HOL-Library.Sublist"
begin

section \<open>JavaScript strings\<close>

text \<open>
  A JavaScript string is a sequence of UTF-16 code units. A regular expression without the
  \<^verbatim>\<open>u\<close> flag, \<^verbatim>\<open>includes\<close>, \<^verbatim>\<open>trim\<close> and \<^verbatim>\<open>slice\<close> all work on code units, so a
  string is modelled as the list of its code units, each a natural number (below 65536 in
  every real string; no theorem below needs the bound). String literals of the source that
  are plain ASCII are written as Isabelle literals and embedded with \<open>js\<close>.
\<close>

type_synonym jsstring = "nat list"

definition js :: "string \<Rightarrow> jsstring" where
  "js s = map of_char s"

text \<open>
  \<^verbatim>\<open>/[...]/.test(text)\<close> for a character class made of code-unit ranges: some code unit of
  the text lies in one of the ranges.
\<close>

definition in_ranges :: "(nat \<times> nat) list \<Rightarrow> nat \<Rightarrow> bool" where
  "in_ranges rs c = list_ex (\<lambda>(lo, hi). lo \<le> c \<and> c \<le> hi) rs"

definition regex_test :: "(nat \<times> nat) list \<Rightarrow> jsstring \<Rightarrow> bool" where
  "regex_test rs t = list_ex (in_ranges rs) t"

text \<open>\<^verbatim>\<open>s.includes(t)\<close>: \<open>t\<close> occurs in \<open>s\<close> as a contiguous run of code units.\<close>

fun js_includes :: "jsstring \<Rightarrow> jsstring \<Rightarrow> bool" where
  "js_includes [] t = (t = [])"
| "js_includes (c # s) t = (prefix t (c # s) \<or> js_includes s t)"

text \<open>
  \<^verbatim>\<open>s.trim()\<close> strips the ECMAScript white space and line terminator code units from both
  ends.
\<close>

definition is_js_whitespace :: "nat \<Rightarrow> bool" where
  "is_js_whitespace c =
     (c \<in> {0x0009, 0x000A, 0x000B, 0x000C, 0x000D, 0x0020, 0x00A0, 0x1680,
            0x2028, 0x2029, 0x202F, 0x205F, 0x3000, 0xFEFF}
      \<or> (0x2000 \<le> c \<and> c \<le> 0x200A))"

definition trim :: "jsstring \<Rightarrow> jsstring" where
  "trim s = rev (dropWhile is_js_whitespace (rev (dropWhile is_js_whitespace s)))"

text \<open>
  \<^verbatim>\<open>s.toLowerCase()\<close> is the engine's function, not the repository's: it follows the case
  tables of the engine's Unicode version (which map, for instance, the Kelvin sign
  \<open>U+212A\<close> to \<open>k\<close> and \<open>U+0130\<close> to two code units). The model takes it as a parameter,
  written \<open>lower\<close>, of every function whose source calls it, so that what is proved of such a
  function holds whatever the engine's tables are. Where a theorem needs to know
  something of it, it assumes \<open>conforming_lower\<close>: two facts that hold of
  \<^verbatim>\<open>String.prototype.toLowerCase\<close> in every engine. A string of ASCII code units is
  lower-cased unit by unit, and a string of white space only is left as it is.
  \<open>lower_ascii\<close>, which lower-cases the ASCII letters and nothing else, is one function with
  both properties; it stands for the engine's in the closed examples, all of which are
  ASCII.
\<close>

definition ascii_lower_unit :: "nat \<Rightarrow> nat" where
  "ascii_lower_unit c = (if 0x41 \<le> c \<and> c \<le> 0x5A then c + 0x20 else c)"

definition lower_ascii :: "jsstring \<Rightarrow> jsstring" where
  "lower_ascii s = map ascii_lower_unit s"

definition conforming_lower :: "(jsstring \<Rightarrow> jsstring) \<Rightarrow> bool" where
  "conforming_lower lower =
     ((\<forall>s. list_all (\<lambda>c. c < 0x80) s \<longrightarrow> lower s = map ascii_lower_unit s)
      \<and> (\<forall>s. list_all is_js_whitespace s \<longrightarrow> lower s = s))"

text \<open>
  \<^verbatim>\<open>Set.prototype.add\<close> on an insertion-ordered set, and \<^verbatim>\<open>Array.from(set)\<close>: the set is
  the list of its elements in insertion order.
\<close>

definition set_add :: "'a \<Rightarrow> 'a list \<Rightarrow> 'a list" where
  "set_add x xs = (if x \<in> set xs then xs else xs @ [x])"

definition add_when :: "bool \<Rightarrow> 'a \<Rightarrow> 'a list \<Rightarrow> 'a list" where
  "add_when b x xs = (if b then set_add x xs else xs)"

section \<open>The transcription route: script detection\<close>

text \<open>
  \<^verbatim>\<open>detectLanguagesInText\<close> of the first revision of the route (eight Indic blocks and
  ASCII letters), one \<^verbatim>\<open>if (...) languages.add(...)\<close> per line, in the source's order.
\<close>

definition detectLanguagesInText :: "jsstring \<Rightarrow> string list" where
  "detectLanguagesInText t =
     (let languages = [];
          languages = add_when (regex_test [(0x0900, 0x097F)] t) ''Hindi'' languages;
          languages = add_when (regex_test [(0x0B80, 0x0BFF)] t) ''Tamil'' languages;
          languages = add_when (regex_test [(0x0C00, 0x0C7F)] t) ''Telugu'' languages;
          languages = add_when (regex_test [(0x0D00, 0x0D7F)] t) ''Malayalam'' languages;
          languages = add_when (regex_test [(0x0C80, 0x0CFF)] t) ''Kannada'' languages;
          languages = add_when (regex_test [(0x0980, 0x09FF)] t) ''Bengali'' languages;
          languages = add_when (regex_test [(0x0A80, 0x0AFF)] t) ''Gujarati'' languages;
          languages = add_when (regex_test [(0x0A00, 0x0A7F)] t) ''Punjabi'' languages;
          languages = add_when (regex_test [(0x61, 0x7A), (0x41, 0x5A)] t) ''English'' languages
      in languages)"

text \<open>
  \<^verbatim>\<open>detectLanguagesInText\<close> of the second revision of the route (the one that writes a
  temporary file): the Bengali block is reported as \<^verbatim>\<open>Bengali / Assamese\<close>, and the Odia
  and Arabic blocks are tested too.
\<close>

definition detectLanguagesInText2 :: "jsstring \<Rightarrow> string list" where
  "detectLanguagesInText2 t =
     (let languages = [];
          languages = add_when (regex_test [(0x0900, 0x097F)] t) ''Hindi'' languages;
          languages = add_when (regex_test [(0x0B80, 0x0BFF)] t) ''Tamil'' languages;
          languages = add_when (regex_test [(0x0C00, 0x0C7F)] t) ''Telugu'' languages;
          languages = add_when (regex_test [(0x0D00, 0x0D7F)] t) ''Malayalam'' languages;
          languages = add_when (regex_test [(0x0C80, 0x0CFF)] t) ''Kannada'' languages;
          languages = add_when (regex_test [(0x0980, 0x09FF)] t) ''Bengali / Assamese'' languages;
          languages = add_when (regex_test [(0x0A80, 0x0AFF)] t) ''Gujarati'' languages;
          languages = add_when (regex_test [(0x0A00, 0x0A7F)] t) ''Punjabi'' languages;
          languages = add_when (regex_test [(0x0B00, 0x0B7F)] t) ''Odia'' languages;
          languages = add_when (regex_test [(0x0600, 0x06FF)] t) ''Urdu'' languages;
          languages = add_when (regex_test [(0x61, 0x7A), (0x41, 0x5A)] t) ''English'' languages
      in languages)"

text \<open>
  The words of the specification. A Latin letter is a letter of the Latin script: an
  ASCII letter, or a letter of the Latin-1 Supplement (\<open>U+00AA\<close>, \<open>U+00BA\<close>,
  \<open>U+00C0\<close>--\<open>U+00FF\<close> without the multiplication and division signs), of Latin
  Extended-A and Extended-B (\<open>U+0100\<close>--\<open>U+024F\<close>) or of Latin Extended Additional
  (\<open>U+1E00\<close>--\<open>U+1EFF\<close>). An ASCII letter is what the detector's \<^verbatim>\<open>[a-zA-Z]\<close> matches. A
  Devanagari character lies in \<open>U+0900\<close>--\<open>U+097F\<close>. A text is free of the other scripts
  when no code unit lies in a block that either revision reports under another name:
  Arabic (\<open>U+0600\<close>--\<open>U+06FF\<close>) and the nine Indic blocks from Devanagari to Malayalam,
  which are contiguous (\<open>U+0900\<close>--\<open>U+0D7F\<close>). Every text written in the Latin script only
  (letters of the Latin blocks, digits, punctuation) is free of them.
\<close>

definition is_ascii_letter :: "nat \<Rightarrow> bool" where
  "is_ascii_letter c = ((0x61 \<le> c \<and> c \<le> 0x7A) \<or> (0x41 \<le> c \<and> c \<le> 0x5A))"

definition is_latin_letter :: "nat \<Rightarrow> bool" where
  "is_latin_letter c =
     (is_ascii_letter c \<or> c = 0xAA \<or> c = 0xBA
      \<or> (0xC0 \<le> c \<and> c \<le> 0xFF \<and> c \<noteq> 0xD7 \<and> c \<noteq> 0xF7)
      \<or> (0x0100 \<le> c \<and> c \<le> 0x024F)
      \<or> (0x1E00 \<le> c \<and> c \<le> 0x1EFF))"

definition is_devanagari :: "nat \<Rightarrow> bool" where
  "is_devanagari c = (0x0900 \<le> c \<and> c \<le> 0x097F)"

definition in_other_script :: "nat \<Rightarrow> bool" where
  "in_other_script c = ((0x0600 \<le> c \<and> c \<le> 0x06FF) \<or> (0x0900 \<le> c \<and> c \<le> 0x0D7F))"

definition latin_only :: "jsstring \<Rightarrow> bool" where
  "latin_only t = list_all (\<lambda>c. \<not> in_other_script c) t"

section \<open>The transcription route\<close>

text \<open>
  The source holds two revisions of the route. The first (\<open>POST\<close>) hands the uploaded file
  to the transcription service directly; the second (\<open>POST2\<close>) writes it to a temporary
  file first. Both are modelled. Console output is left out.
\<close>

subsection \<open>Requests\<close>

text \<open>
  A multipart form is the list of its entries in order; \<^verbatim>\<open>formData.get(name)\<close> is the
  value of the first entry of that name, or \<^verbatim>\<open>null\<close>. An uploaded file is known by its
  name, MIME type and size in bytes. \<^verbatim>\<open>request.formData()\<close> rejects on a body that is
  not a form, with some message.
\<close>

record upload =
  file_name :: jsstring
  file_type :: jsstring
  file_size :: nat

datatype form_value = FileEntry upload | TextEntry jsstring

type_synonym form_data = "(jsstring \<times> form_value) list"

definition form_get :: "jsstring \<Rightarrow> form_data \<Rightarrow> form_value option" where
  "form_get name fd = map_of fd name"

datatype request = Unparsable "jsstring option" | FormData form_data

text \<open>
  The two casts of the handlers change nothing at run time.
  \<^verbatim>\<open>formData.get('audio') as File\<close> followed by \<^verbatim>\<open>if (!audioFile)\<close>: an absent entry and an
  empty text entry are falsy; a non-empty text entry passes the test and has no
  \<^verbatim>\<open>type\<close>. \<^verbatim>\<open>formData.get('language') as string\<close>: the entry is absent, a text, or a
  file, which is truthy, equal to no string, and has no \<^verbatim>\<open>toLowerCase\<close>.
\<close>

datatype audio_field = NoAudio | NotAFile | AFile upload

definition audio_of :: "form_data \<Rightarrow> audio_field" where
  "audio_of fd =
     (case form_get (js ''audio'') fd of
        None \<Rightarrow> NoAudio
      | Some (TextEntry s) \<Rightarrow> (if s = [] then NoAudio else NotAFile)
      | Some (FileEntry f) \<Rightarrow> AFile f)"

datatype language_field = NoLanguage | LanguageText jsstring | LanguageFile upload

definition language_of :: "form_data \<Rightarrow> language_field" where
  "language_of fd =
     (case form_get (js ''language'') fd of
        None \<Rightarrow> NoLanguage
      | Some (TextEntry s) \<Rightarrow> LanguageText s
      | Some (FileEntry f) \<Rightarrow> LanguageFile f)"

definition language_is_file :: "form_data \<Rightarrow> bool" where
  "language_is_file fd = (case language_of fd of LanguageFile _ \<Rightarrow> True | _ \<Rightarrow> False)"

subsection \<open>The transcription service\<close>

text \<open>
  The call \<^verbatim>\<open>openai.audio.transcriptions.create\<close> either returns a transcription or
  throws an error object, of which the handlers read \<^verbatim>\<open>status\<close>, \<^verbatim>\<open>code\<close> and
  \<^verbatim>\<open>message\<close>. Durations and time stamps are passed through untouched.
\<close>

record segment =
  seg_text :: jsstring
  seg_start :: rat
  seg_end :: rat

record transcription =
  t_text :: jsstring
  t_language :: "jsstring option"
  t_duration :: rat
  t_segments :: "segment list"

record thrown =
  err_status :: "nat option"
  err_code :: "jsstring option"
  err_message :: "jsstring option"

datatype whisper_outcome = Transcribed transcription | Threw thrown

text \<open>
  What is sent: the file itself or a read stream of the temporary file, the model name,
  the language directive when there is one, the response format, the context prompt and
  the temperature. The context prompts are constant phrase lists in the scripts of their
  languages; the model names a phrase list by the key under which \<^verbatim>\<open>prompts\<close> holds it
  (\<open>Phrases\<close>). \<open>Inherited\<close> is what \<^verbatim>\<open>prompts[language]\<close> gives for a name that every object
  inherits, such as \<^verbatim>\<open>constructor\<close>: not a phrase list but the inherited property.
\<close>

datatype prompt = Phrases jsstring | Inherited jsstring

datatype temp_path = TempPath nat jsstring

datatype audio_source = Direct upload | ReadStream temp_path

record whisper_params =
  p_file :: audio_source
  p_model :: jsstring
  p_language :: "jsstring option"
  p_response_format :: jsstring
  p_prompt :: prompt
  p_temperature :: nat

datatype server_event =
    CallWhisper whisper_params
  | WriteFile temp_path
  | Unlink temp_path

subsection \<open>Responses\<close>

text \<open>
  \<^verbatim>\<open>NextResponse.json(body, {status})\<close>. An error body is \<^verbatim>\<open>{ error: message }\<close>; the
  model names the message by its kind and keeps the value interpolated into it. The names
  are those of the specification: \<open>MissingAudio\<close> is \<^verbatim>\<open>No audio file provided\<close>,
  \<open>UnsupportedFormat\<close> is \<^verbatim>\<open>Invalid file type: ...\<close>, \<open>PayloadTooLarge\<close> is
  \<^verbatim>\<open>File too large: ...\<close> or \<^verbatim>\<open>File exceeds 25MB limit\<close>, \<open>RateLimited\<close> is
  \<^verbatim>\<open>Rate limit exceeded\<close>, \<open>ServiceMisconfigured\<close> is the invalid key message,
  \<open>QuotaExceeded\<close> is \<^verbatim>\<open>API quota exceeded\<close>, and \<open>TranscriptionFailed m\<close> is the thrown
  error's own message \<open>m\<close>, or \<^verbatim>\<open>Transcription failed\<close> when it has none. The \<^verbatim>\<open>details\<close>
  that a development build adds to the last one are left out.
\<close>

datatype api_error =
    MissingAudio
  | UnsupportedFormat jsstring
  | PayloadTooLarge nat
  | RateLimited
  | ServiceMisconfigured
  | QuotaExceeded
  | TranscriptionFailed "jsstring option"

record success =
  r_transcript :: jsstring
  r_language :: jsstring
  r_detectedLanguages :: "string list"
  r_duration :: rat
  r_segments :: "segment list"
  r_fileName :: jsstring
  r_fileSize :: nat
  r_autoDetected :: bool

datatype body = ErrorBody api_error | SuccessBody success

record response =
  status :: nat
  body :: body

definition error_response :: "nat \<Rightarrow> api_error \<Rightarrow> response" where
  "error_response code e = \<lparr>status = code, body = ErrorBody e\<rparr>"

subsection \<open>Configuration\<close>

definition SUPPORTED_LANGUAGES :: "(jsstring \<times> string) list" where
  "SUPPORTED_LANGUAGES =
     [(js ''en'', ''English''), (js ''hi'', ''Hindi''), (js ''ta'', ''Tamil''),
      (js ''te'', ''Telugu''), (js ''ml'', ''Malayalam''), (js ''kn'', ''Kannada''),
      (js ''bn'', ''Bengali''), (js ''gu'', ''Gujarati''), (js ''mr'', ''Marathi''),
      (js ''pa'', ''Punjabi''), (js ''ur'', ''Urdu''), (js ''or'', ''Odia''),
      (js ''as'', ''Assamese'')]"

definition is_supported :: "jsstring \<Rightarrow> bool" where
  "is_supported code = (map_of SUPPORTED_LANGUAGES code \<noteq> None)"

definition prompt_keys :: "jsstring list" where
  "prompt_keys = map js [''hi'', ''ta'', ''te'', ''ml'', ''kn'', ''bn'', ''gu'', ''mr'', ''pa'', ''en'']"

definition prompt_keys2 :: "jsstring list" where
  "prompt_keys2 =
     map js [''hi'', ''ta'', ''te'', ''ml'', ''kn'', ''bn'', ''gu'', ''mr'', ''pa'', ''ur'', ''or'',
             ''as'', ''en'']"

text \<open>
  \<^verbatim>\<open>prompts[language] || prompts['en']\<close>. A property read on an object literal finds the
  object's own keys and the names inherited from \<^verbatim>\<open>Object.prototype\<close>, all of which are
  truthy. (The same holds of \<^verbatim>\<open>SUPPORTED_LANGUAGES[normalizedLang]\<close>, but the handlers
  read it with their own normalised codes only, and for those \<open>is_supported\<close> is the
  membership among the own keys whenever the code has at most two code units: every
  inherited name is longer.)
\<close>

definition object_prototype_keys :: "jsstring list" where
  "object_prototype_keys =
     map js [''constructor'', ''hasOwnProperty'', ''isPrototypeOf'', ''propertyIsEnumerable'',
             ''toLocaleString'', ''toString'', ''valueOf'', ''__proto__'', ''__defineGetter__'',
             ''__defineSetter__'', ''__lookupGetter__'', ''__lookupSetter__'']"

definition getContextPrompt :: "jsstring \<Rightarrow> prompt" where
  "getContextPrompt language =
     (if language \<in> set prompt_keys then Phrases language
      else if language \<in> set object_prototype_keys then Inherited language
      else Phrases (js ''en''))"

definition getContextPrompt2 :: "jsstring \<Rightarrow> prompt" where
  "getContextPrompt2 language =
     (if language \<in> set prompt_keys2 then Phrases language
      else if language \<in> set object_prototype_keys then Inherited language
      else Phrases (js ''en''))"

definition maxSize :: nat where
  "maxSize = 25 * 1024 * 1024"

definition validTypes :: "jsstring list" where
  "validTypes =
     map js [''audio/webm'', ''audio/wav'', ''audio/mp3'', ''audio/m4a'', ''audio/mpeg'',
             ''audio/ogg'']"

definition allowedTypes :: "jsstring list" where
  "allowedTypes =
     map js [''audio/webm'', ''audio/wav'', ''audio/mpeg'', ''audio/mp3'', ''audio/mp4'',
             ''audio/ogg'', ''audio/x-m4a'']"

text \<open>
  \<^verbatim>\<open>s.split('/')\<close> and \<^verbatim>\<open>parts[1]\<close>; a missing second part is \<^verbatim>\<open>undefined\<close>, which
  \<^verbatim>\<open>includes\<close> converts to the string \<^verbatim>\<open>undefined\<close>.
\<close>

fun split_on :: "nat \<Rightarrow> jsstring \<Rightarrow> jsstring list" where
  "split_on sep [] = [[]]"
| "split_on sep (c # s) =
     (if c = sep then [] # split_on sep s
      else (case split_on sep s of p # ps \<Rightarrow> (c # p) # ps | [] \<Rightarrow> [[c]]))"

definition subtype_of :: "jsstring \<Rightarrow> jsstring" where
  "subtype_of ty = (case split_on 0x2F ty of _ # sub # _ \<Rightarrow> sub | _ \<Rightarrow> js ''undefined'')"

definition type_accepted :: "jsstring \<Rightarrow> bool" where
  "type_accepted ty = list_ex (\<lambda>valid. js_includes ty (subtype_of valid)) validTypes"

text \<open>\<^verbatim>\<open>language.toLowerCase().slice(0, 2)\<close>.\<close>

definition normalize_lang :: "(jsstring \<Rightarrow> jsstring) \<Rightarrow> jsstring \<Rightarrow> jsstring" where
  "normalize_lang lower language = take 2 (lower language)"

text \<open>\<^verbatim>\<open>a || b\<close> on strings that may be absent: the empty string is falsy.\<close>

definition truthy :: "jsstring option \<Rightarrow> bool" where
  "truthy v = (case v of None \<Rightarrow> False | Some s \<Rightarrow> s \<noteq> [])"

definition or_else :: "jsstring option \<Rightarrow> jsstring option \<Rightarrow> jsstring option" where
  "or_else a b = (if truthy a then a else b)"

definition or_default :: "jsstring option \<Rightarrow> jsstring \<Rightarrow> jsstring" where
  "or_default a d = (case a of None \<Rightarrow> d | Some s \<Rightarrow> if s = [] then d else s)"

subsection \<open>The first revision\<close>

text \<open>The \<^verbatim>\<open>catch\<close> block of \<open>POST\<close>.\<close>

definition handle_error :: "thrown \<Rightarrow> response" where
  "handle_error e =
     (if err_status e = Some 429 then error_response 429 RateLimited
      else if err_status e = Some 401 then error_response 500 ServiceMisconfigured
      else if err_code e = Some (js ''insufficient_quota'') then error_response 503 QuotaExceeded
      else error_response 500
             (TranscriptionFailed (if truthy (err_message e) then err_message e else None)))"

text \<open>
  Reading \<^verbatim>\<open>audioFile.type.includes\<close> on an entry that is not a file, and calling
  \<^verbatim>\<open>language?.toLowerCase()\<close> on a file, throw a \<^verbatim>\<open>TypeError\<close>, which the \<^verbatim>\<open>catch\<close>
  block answers like any other error.
\<close>

definition type_error :: thrown where
  "type_error =
     \<lparr>err_status = None, err_code = None,
      err_message = Some (js ''Cannot read properties of undefined (reading 'includes')'')\<rparr>"

definition lower_type_error :: thrown where
  "lower_type_error =
     \<lparr>err_status = None, err_code = None,
      err_message = Some (js ''language?.toLowerCase is not a function'')\<rparr>"

text \<open>
  \<open>POST\<close>, given the engine's lower-casing and the outcome of the call to the service.
  The language is normalised after the three validations and before the call.
\<close>

definition POST ::
  "(jsstring \<Rightarrow> jsstring) \<Rightarrow> whisper_outcome \<Rightarrow> request \<Rightarrow> server_event list \<times> response" where
  "POST lower service req =
     (case req of
        Unparsable m \<Rightarrow> ([], handle_error \<lparr>err_status = None, err_code = None, err_message = m\<rparr>)
      | FormData fd \<Rightarrow>
          (let language = language_of fd;
               useAutoDetect =
                 (case language of
                    NoLanguage \<Rightarrow> True
                  | LanguageText s \<Rightarrow> s = [] \<or> s = js ''auto''
                  | LanguageFile _ \<Rightarrow> False)
           in case audio_of fd of
                NoAudio \<Rightarrow> ([], error_response 400 MissingAudio)
              | NotAFile \<Rightarrow> ([], handle_error type_error)
              | AFile audioFile \<Rightarrow>
                  if \<not> type_accepted (file_type audioFile)
                  then ([], error_response 400 (UnsupportedFormat (file_type audioFile)))
                  else if file_size audioFile > maxSize
                  then ([], error_response 400 (PayloadTooLarge (file_size audioFile)))
                  else
                    (case language of
                       LanguageFile _ \<Rightarrow> ([], handle_error lower_type_error)
                     | _ \<Rightarrow>
                    (let normalizedLang =
                           (case language of
                              LanguageText s \<Rightarrow> Some (normalize_lang lower s)
                            | _ \<Rightarrow> None);
                         whisperLanguage =
                           (case normalizedLang of
                              Some l \<Rightarrow> if is_supported l then Some l else None
                            | None \<Rightarrow> None);
                         contextPrompt =
                           (case whisperLanguage of
                              Some l \<Rightarrow> getContextPrompt l
                            | None \<Rightarrow> getContextPrompt (js ''en''));
                         call = CallWhisper
                           \<lparr>p_file = Direct audioFile,
                            p_model = js ''whisper-1'',
                            p_language = (if truthy whisperLanguage \<and> \<not> useAutoDetect
                                          then whisperLanguage else None),
                            p_response_format = js ''verbose_json'',
                            p_prompt = contextPrompt,
                            p_temperature = 0\<rparr>
                     in case service of
                          Threw e \<Rightarrow> ([call], handle_error e)
                        | Transcribed tr \<Rightarrow>
                            ([call],
                             \<lparr>status = 200,
                              body = SuccessBody
                                \<lparr>r_transcript = t_text tr,
                                 r_language =
                                   or_default (or_else (t_language tr) whisperLanguage)
                                     (js ''unknown''),
                                 r_detectedLanguages = detectLanguagesInText (t_text tr),
                                 r_duration = t_duration tr,
                                 r_segments = t_segments tr,
                                 r_fileName = file_name audioFile,
                                 r_fileSize = file_size audioFile,
                                 r_autoDetected = useAutoDetect\<rparr>\<rparr>)))))"

subsection \<open>The second revision\<close>

text \<open>The \<^verbatim>\<open>catch\<close> block of \<open>POST2\<close>: it has no case for an exhausted quota.\<close>

definition handle_error2 :: "thrown \<Rightarrow> response" where
  "handle_error2 e =
     (if err_status e = Some 429 then error_response 429 RateLimited
      else if err_status e = Some 401 then error_response 500 ServiceMisconfigured
      else error_response 500
             (TranscriptionFailed (if truthy (err_message e) then err_message e else None)))"

definition lower_type_error2 :: thrown where
  "lower_type_error2 =
     \<lparr>err_status = None, err_code = None,
      err_message = Some (js ''language.toLowerCase is not a function'')\<rparr>"

text \<open>
  \<open>POST2\<close> reads the clock for the name of the temporary file
  (\<^verbatim>\<open>path.join(os.tmpdir(), `${Date.now()}-${audioFile.name}`)\<close>, modelled as the pair of the
  time and the file name), writes the file, which may fail, calls the service with a read
  stream of it, and unlinks it after the call has returned. A write that fails is taken
  to leave no file behind. An entry that is not a file has the type \<^verbatim>\<open>undefined\<close>, which
  is not in the list. The language is \<^verbatim>\<open>formData.get('language') || 'auto'\<close>: a string, or
  \<open>None\<close> for a file entry, on which \<^verbatim>\<open>language.toLowerCase()\<close> throws after the
  validations and before the file is written.
\<close>

definition POST2 ::
  "(jsstring \<Rightarrow> jsstring) \<Rightarrow> nat \<Rightarrow> thrown option \<Rightarrow> whisper_outcome \<Rightarrow> request
    \<Rightarrow> server_event list \<times> response" where
  "POST2 lower now write_error service req =
     (case req of
        Unparsable m \<Rightarrow> ([], handle_error2 \<lparr>err_status = None, err_code = None, err_message = m\<rparr>)
      | FormData fd \<Rightarrow>
          (let language =
                 (case language_of fd of
                    NoLanguage \<Rightarrow> Some (js ''auto'')
                  | LanguageText s \<Rightarrow> Some (if s = [] then js ''auto'' else s)
                  | LanguageFile _ \<Rightarrow> None)
           in case audio_of fd of
                NoAudio \<Rightarrow> ([], error_response 400 MissingAudio)
              | NotAFile \<Rightarrow> ([], error_response 400 (UnsupportedFormat (js ''undefined'')))
              | AFile audioFile \<Rightarrow>
                  if file_type audioFile \<notin> set allowedTypes
                  then ([], error_response 400 (UnsupportedFormat (file_type audioFile)))
                  else if file_size audioFile > maxSize
                  then ([], error_response 400 (PayloadTooLarge (file_size audioFile)))
                  else
                    (case language of
                       None \<Rightarrow> ([], handle_error2 lower_type_error2)
                     | Some language \<Rightarrow>
                    (let normalizedLang = normalize_lang lower language;
                         whisperLanguage =
                           (if language \<noteq> js ''auto'' \<and> is_supported normalizedLang
                            then Some normalizedLang else None);
                         tempFilePath = TempPath now (file_name audioFile)
                     in case write_error of
                          Some e \<Rightarrow> ([], handle_error2 e)
                        | None \<Rightarrow>
                            (let call = CallWhisper
                                   \<lparr>p_file = ReadStream tempFilePath,
                                    p_model = js ''whisper-1'',
                                    p_language = whisperLanguage,
                                    p_response_format = js ''verbose_json'',
                                    p_prompt = getContextPrompt2 (or_default whisperLanguage (js ''en'')),
                                    p_temperature = 0\<rparr>
                             in case service of
                                  Threw e \<Rightarrow> ([WriteFile tempFilePath, call], handle_error2 e)
                                | Transcribed tr \<Rightarrow>
                                    ([WriteFile tempFilePath, call, Unlink tempFilePath],
                                     \<lparr>status = 200,
                                      body = SuccessBody
                                        \<lparr>r_transcript = t_text tr,
                                         r_language =
                                           or_default (or_else (t_language tr) whisperLanguage)
                                             (js ''unknown''),
                                         r_detectedLanguages = detectLanguagesInText2 (t_text tr),
                                         r_duration = t_duration tr,
                                         r_segments = t_segments tr,
                                         r_fileName = file_name audioFile,
                                         r_fileSize = file_size audioFile,
                                         r_autoDetected = (\<not> truthy whisperLanguage)\<rparr>\<rparr>))))))"

text \<open>
  What a handler did, read off its events: whether it reached the transcription service,
  and which temporary files exist afterwards.
\<close>

definition is_call :: "server_event \<Rightarrow> bool" where
  "is_call ev = (case ev of CallWhisper _ \<Rightarrow> True | _ \<Rightarrow> False)"

definition called_service :: "server_event list \<Rightarrow> bool" where
  "called_service evs = list_ex is_call evs"

fun disk_step :: "server_event \<Rightarrow> temp_path list \<Rightarrow> temp_path list" where
  "disk_step (WriteFile p) files = List.insert p files"
| "disk_step (Unlink p) files = removeAll p files"
| "disk_step (CallWhisper _) files = files"

definition disk_after :: "server_event list \<Rightarrow> temp_path list \<Rightarrow> temp_path list" where
  "disk_after evs files = fold disk_step evs files"

section \<open>The voice console\<close>

subsection \<open>Scenario tables\<close>

record explanation =
  input :: jsstring
  agent :: jsstring
  ruleEngine :: jsstring
  confidence :: nat
  decision :: jsstring
  humanVerification :: jsstring

text \<open>
  An object with string keys is the list of its properties in insertion order, which is the
  order of \<^verbatim>\<open>Object.keys\<close>.
\<close>

definition scenarioResponses :: "(jsstring \<times> jsstring list) list" where
  "scenarioResponses =
     [(js ''power outage'',
       [js ''Power outage reported in your area. Technician has been dispatched and will arrive within 24 hours. For immediate assistance, please contact the emergency helpline at 1912.'',
        js ''We've registered your power outage report. Estimated restoration time is 6-8 hours.'']),
      (js ''water tank'',
       [js ''Water tank level critical. Refill scheduled for tomorrow morning between 6-8 AM. You'll receive an SMS confirmation shortly.''])]"

definition aiExplanationData :: "(jsstring \<times> explanation) list" where
  "aiExplanationData =
     [(js ''power outage'',
       \<lparr>input = js ''Power outage in our area'',
        agent = js ''Utility Management Agent'',
        ruleEngine = js ''Emergency Response Protocol v2.1 - Priority 1'',
        confidence = 95,
        decision = js ''Dispatch technician within 24 hours, send SMS confirmation'',
        humanVerification = js ''Auto-verified by system.''\<rparr>),
      (js ''water tank'',
       \<lparr>input = js ''Water tank is almost empty'',
        agent = js ''Water Resource Management Agent'',
        ruleEngine = js ''Water Distribution Algorithm v3.0 - Critical Level'',
        confidence = 92,
        decision = js ''Schedule emergency refill'',
        humanVerification = js ''Auto-verified.''\<rparr>)]"

subsection \<open>State, platform and actions\<close>

text \<open>
  A clip or chunk of recorded audio is known by its type and its size in bytes. A stream
  is known by a number; a recorder by its stream, its MIME type and the language that was
  selected when it was created (its \<^verbatim>\<open>onstop\<close> handler closes over the render in which
  \<open>startRecording\<close> ran, and so over that value of \<^verbatim>\<open>selectedLanguage\<close>). A synthesis voice is
  known by its name and its language tag, which may be missing.
\<close>

record blob =
  blob_type :: jsstring
  blob_size :: nat

record recorder =
  rec_stream :: nat
  rec_mime :: jsstring
  rec_language :: jsstring

record voice =
  voice_name :: jsstring
  lang :: "jsstring option"

record utterance =
  u_text :: jsstring
  u_voice :: "voice option"

text \<open>
  The console: the React state of the component, its refs, and the part of the browser it
  acts on: the audio streams whose tracks are live, the recorders that are recording, and
  the queue of the speech synthesiser (its head is the utterance being spoken). The
  transcript is a string, or \<open>None\<close> when \<^verbatim>\<open>setTranscript\<close> was given a value that is not a
  string.
\<close>

record console =
  transcript :: "jsstring option"
  reply :: jsstring
  isRecording :: bool
  isLoading :: bool
  isPlaying :: bool
  error :: "jsstring option"
  selectedLanguage :: jsstring
  isLargeText :: bool
  isIVRMode :: bool
  detectedLanguage :: jsstring
  transcriptionDuration :: rat
  showExplanation :: bool
  currentExplanation :: "explanation option"
  mediaRecorderRef :: "recorder option"
  audioChunksRef :: "blob list"
  streamRef :: "nat option"
  utteranceRef :: "utterance option"
  live_streams :: "nat list"
  recording :: "recorder list"
  synth_queue :: "utterance list"

text \<open>The component as mounted: the initial values of \<^verbatim>\<open>useState\<close> and \<^verbatim>\<open>useRef\<close>.\<close>

definition initial :: console where
  "initial =
     \<lparr>transcript = Some [], reply = [], isRecording = False, isLoading = False, isPlaying = False,
      error = None, selectedLanguage = js ''auto'', isLargeText = False, isIVRMode = False,
      detectedLanguage = [],
      transcriptionDuration = 0, showExplanation = False, currentExplanation = None,
      mediaRecorderRef = None, audioChunksRef = [], streamRef = None, utteranceRef = None,
      live_streams = [], recording = [], synth_queue = []\<rparr>"

text \<open>
  Everything a handler does is an action: a state setter, an assignment to a ref, or a
  call to the browser or the network. A handler is the list of the actions it performs, in
  order; \<open>run\<close> performs them on a console. \<open>GetUserMedia\<close> carries the stream obtained
  (\<open>None\<close> when access is refused).
\<close>

datatype action =
    SetTranscript "jsstring option"
  | SetReply jsstring
  | SetIsRecording bool
  | SetIsLoading bool
  | SetIsPlaying bool
  | SetError "jsstring option"
  | SetDetectedLanguage jsstring
  | SetTranscriptionDuration rat
  | SetShowExplanation bool
  | SetCurrentExplanation "explanation option"
  | SetIsIVRMode bool
  | SetIsLargeText bool
  | SetSelectedLanguage jsstring
  | GetUserMedia "nat option"
  | AssignStreamRef nat
  | AssignRecorderRef recorder
  | ResetChunks
  | PushChunk blob
  | RecorderStart recorder
  | RecorderStop recorder
  | StopTracks nat
  | PostTranscribe form_data
  | PostMistral jsstring
  | AssignUtteranceRef utterance
  | SynthCancel
  | SynthSpeak utterance
  | ConsoleError

fun perform :: "action \<Rightarrow> console \<Rightarrow> console" where
  "perform (SetTranscript t) c = c\<lparr>transcript := t\<rparr>"
| "perform (SetReply r) c = c\<lparr>reply := r\<rparr>"
| "perform (SetIsRecording b) c = c\<lparr>isRecording := b\<rparr>"
| "perform (SetIsLoading b) c = c\<lparr>isLoading := b\<rparr>"
| "perform (SetIsPlaying b) c = c\<lparr>isPlaying := b\<rparr>"
| "perform (SetError e) c = c\<lparr>error := e\<rparr>"
| "perform (SetDetectedLanguage l) c = c\<lparr>detectedLanguage := l\<rparr>"
| "perform (SetTranscriptionDuration d) c = c\<lparr>transcriptionDuration := d\<rparr>"
| "perform (SetShowExplanation b) c = c\<lparr>showExplanation := b\<rparr>"
| "perform (SetCurrentExplanation e) c = c\<lparr>currentExplanation := e\<rparr>"
| "perform (SetIsIVRMode b) c = c\<lparr>isIVRMode := b\<rparr>"
| "perform (SetIsLargeText b) c = c\<lparr>isLargeText := b\<rparr>"
| "perform (SetSelectedLanguage l) c = c\<lparr>selectedLanguage := l\<rparr>"
| "perform (GetUserMedia None) c = c"
| "perform (GetUserMedia (Some sid)) c = c\<lparr>live_streams := live_streams c @ [sid]\<rparr>"
| "perform (AssignStreamRef sid) c = c\<lparr>streamRef := Some sid\<rparr>"
| "perform (AssignRecorderRef r) c = c\<lparr>mediaRecorderRef := Some r\<rparr>"
| "perform ResetChunks c = c\<lparr>audioChunksRef := []\<rparr>"
| "perform (PushChunk b) c = c\<lparr>audioChunksRef := audioChunksRef c @ [b]\<rparr>"
| "perform (RecorderStart r) c = c\<lparr>recording := recording c @ [r]\<rparr>"
| "perform (RecorderStop r) c = c\<lparr>recording := remove1 r (recording c)\<rparr>"
| "perform (StopTracks sid) c = c\<lparr>live_streams := removeAll sid (live_streams c)\<rparr>"
| "perform (PostTranscribe fd) c = c"
| "perform (PostMistral p) c = c"
| "perform (AssignUtteranceRef u) c = c\<lparr>utteranceRef := Some u\<rparr>"
| "perform SynthCancel c = c\<lparr>synth_queue := []\<rparr>"
| "perform (SynthSpeak u) c = c\<lparr>synth_queue := synth_queue c @ [u]\<rparr>"
| "perform ConsoleError c = c"

definition run :: "action list \<Rightarrow> console \<Rightarrow> console" where
  "run acts c = fold perform acts c"

subsection \<open>Intent resolution\<close>

text \<open>
  The request to \<^verbatim>\<open>/api/mistral\<close> ends in one of four ways: \<^verbatim>\<open>fetch\<close> rejects (no
  network, a timeout); \<^verbatim>\<open>response.json()\<close> rejects (the body is not JSON); the body is
  \<^verbatim>\<open>null\<close>, so that reading \<^verbatim>\<open>data.response\<close> throws; or the body is a JSON value whose
  \<^verbatim>\<open>response\<close> is a string (\<open>Some\<close>) or is missing (\<open>None\<close>). The status of the answer is
  never looked at.
\<close>

datatype delegation = FetchRejected | JsonRejected | NullBody | Answer "jsstring option"

definition ai_default :: jsstring where
  "ai_default = js ''I processed that request.''"

definition ai_offline :: jsstring where
  "ai_offline = js ''I heard you, but my AI brain is currently offline.''"

definition default_fallback :: jsstring where
  "default_fallback = js ''I understand your query. Connecting you to an agent...''"

text \<open>
  \<^verbatim>\<open>Object.keys(scenarioResponses).find(scenario => lowerText.includes(scenario))\<close>.
\<close>

definition matchedScenario :: "jsstring \<Rightarrow> jsstring option" where
  "matchedScenario lowerText =
     find (\<lambda>scenario. js_includes lowerText scenario) (map fst scenarioResponses)"

text \<open>
  \<^verbatim>\<open>scenarioResponses[matchedScenario][0]\<close>: the first candidate reply of a key. Every key
  of the table has one; for any other string the source would read a property of
  \<^verbatim>\<open>undefined\<close>.
\<close>

definition first_reply :: "jsstring \<Rightarrow> jsstring option" where
  "first_reply scenario =
     (case map_of scenarioResponses scenario of
        Some (r # rs) \<Rightarrow> Some r
      | _ \<Rightarrow> None)"

text \<open>The \<^verbatim>\<open>try\<close>/\<^verbatim>\<open>catch\<close> around the delegation, and the statement after it.\<close>

definition delegate :: "delegation \<Rightarrow> jsstring \<Rightarrow> action list" where
  "delegate d text_in =
     PostMistral text_in
     # (case d of
          Answer r \<Rightarrow> [SetReply (or_default r ai_default)]
        | _ \<Rightarrow> [SetReply ai_offline])
     @ [SetReply default_fallback]"

definition processBusinessLogic ::
  "(jsstring \<Rightarrow> jsstring) \<Rightarrow> delegation \<Rightarrow> jsstring \<Rightarrow> action list" where
  "processBusinessLogic lower d text_in =
     (if trim text_in = [] then []
      else
        (let lowerText = lower text_in
         in case matchedScenario lowerText of
              Some scenario \<Rightarrow>
                (if scenario = [] then delegate d text_in
                 else case first_reply scenario of
                        Some r \<Rightarrow>
                          [SetReply r,
                           SetCurrentExplanation (map_of aiExplanationData scenario),
                           SetShowExplanation True]
                      | None \<Rightarrow> [])
            | None \<Rightarrow> delegate d text_in))"

subsection \<open>Recording\<close>

text \<open>
  What the browser answers to \<open>startRecording\<close>: the microphone stream or a refusal with a
  message, whether the Opus codec is supported, and whether constructing the recorder
  throws, with its message. The console is the state of the render in which the handler
  runs; the handler reads nothing of it but the selected language, which the recorder's
  \<^verbatim>\<open>onstop\<close> keeps.
\<close>

datatype media_outcome = Granted nat | Denied jsstring

record capture_env =
  media :: media_outcome
  opus_supported :: bool
  recorder_error :: "jsstring option"

definition startRecording :: "capture_env \<Rightarrow> console \<Rightarrow> action list" where
  "startRecording env c =
     [SetError None, SetTranscript (Some []), SetReply [], SetShowExplanation False,
      SetDetectedLanguage []]
     @ (case media env of
          Denied msg \<Rightarrow>
            [GetUserMedia None, ConsoleError,
             SetError (Some (js ''Microphone access denied: '' @ msg))]
        | Granted stream \<Rightarrow>
            [GetUserMedia (Some stream), AssignStreamRef stream]
            @ (let mimeType = (if opus_supported env then js ''audio/webm;codecs=opus''
                               else js ''audio/webm'')
               in case recorder_error env of
                    Some msg \<Rightarrow>
                      [ConsoleError, SetError (Some (js ''Microphone access denied: '' @ msg))]
                  | None \<Rightarrow>
                      (let mediaRecorder =
                             \<lparr>rec_stream = stream, rec_mime = mimeType,
                              rec_language = selectedLanguage c\<rparr>
                       in [AssignRecorderRef mediaRecorder, ResetChunks,
                           RecorderStart mediaRecorder, SetIsRecording True])))"

definition stopRecording :: "console \<Rightarrow> action list" where
  "stopRecording c =
     (case mediaRecorderRef c of
        Some r \<Rightarrow> if isRecording c then [RecorderStop r, SetIsRecording False] else []
      | None \<Rightarrow> [])"

definition ondataavailable :: "blob \<Rightarrow> action list" where
  "ondataavailable data = (if blob_size data > 0 then [PushChunk data] else [])"

subsection \<open>Transcription request\<close>

text \<open>
  The request to \<^verbatim>\<open>/api/transcribe\<close> ends in one of five ways: \<^verbatim>\<open>fetch\<close> rejects, with a
  message; the answer is not \<^verbatim>\<open>ok\<close>; \<^verbatim>\<open>response.json()\<close> rejects or gives \<^verbatim>\<open>null\<close>, so
  that nothing is read from the body, with the message of the error thrown; the body is
  a JSON value whose \<^verbatim>\<open>text\<close> is the string given; or the body is a JSON value without a
  string under \<^verbatim>\<open>text\<close>, on which \<^verbatim>\<open>text.trim()\<close> throws in \<open>processBusinessLogic\<close>, with
  the message of that error.
\<close>

datatype transcribe_outcome =
    NetworkFailure jsstring
  | NotOk
  | BadJson jsstring
  | Json jsstring
  | JsonWithoutText jsstring

text \<open>
  \<^verbatim>\<open>formData.append('file', audioBlob, 'recording.webm')\<close>, and the language when one is
  selected and it is not \<^verbatim>\<open>auto\<close>.
\<close>

definition transcribe_form :: "jsstring \<Rightarrow> blob \<Rightarrow> form_data" where
  "transcribe_form language audioBlob =
     [(js ''file'',
       FileEntry \<lparr>file_name = js ''recording.webm'', file_type = blob_type audioBlob,
                  file_size = blob_size audioBlob\<rparr>)]
     @ (if language \<noteq> [] \<and> language \<noteq> js ''auto''
        then [(js ''language'', TextEntry language)] else [])"

text \<open>
  \<open>sendToWhisper\<close>: the \<^verbatim>\<open>try\<close> block up to the first failure, the \<^verbatim>\<open>catch\<close> block on a
  failure, and the \<^verbatim>\<open>finally\<close> block. The duration is \<^verbatim>\<open>audioBlob.size / 10000\<close>.
\<close>

definition sendToWhisper ::
  "(jsstring \<Rightarrow> jsstring) \<Rightarrow> transcribe_outcome \<Rightarrow> delegation \<Rightarrow> jsstring \<Rightarrow> blob
    \<Rightarrow> action list" where
  "sendToWhisper lower outcome d language audioBlob =
     [SetIsLoading True, PostTranscribe (transcribe_form language audioBlob)]
     @ (case outcome of
          NetworkFailure msg \<Rightarrow> [SetError (Some (js ''Processing error: '' @ msg))]
        | NotOk \<Rightarrow> [SetError (Some (js ''Processing error: Transcription failed''))]
        | BadJson msg \<Rightarrow> [SetError (Some (js ''Processing error: '' @ msg))]
        | Json t \<Rightarrow>
            [SetTranscript (Some t),
             SetTranscriptionDuration (of_nat (blob_size audioBlob) / 10000)]
            @ processBusinessLogic lower d t
        | JsonWithoutText msg \<Rightarrow>
            [SetTranscript None,
             SetTranscriptionDuration (of_nat (blob_size audioBlob) / 10000),
             SetError (Some (js ''Processing error: '' @ msg))])
     @ [SetIsLoading False]"

text \<open>
  \<^verbatim>\<open>mediaRecorder.onstop\<close> of a recorder: the clip is the chunks of the shared ref under
  the recorder's type; it is sent with the language the recorder was created under, and
  then the tracks of the stream in \<^verbatim>\<open>streamRef\<close> are stopped.
\<close>

definition onstop ::
  "(jsstring \<Rightarrow> jsstring) \<Rightarrow> transcribe_outcome \<Rightarrow> delegation \<Rightarrow> recorder \<Rightarrow> console
    \<Rightarrow> action list" where
  "onstop lower outcome d r c =
     (let audioBlob = \<lparr>blob_type = rec_mime r,
                       blob_size = sum_list (map blob_size (audioChunksRef c))\<rparr>
      in sendToWhisper lower outcome d (rec_language r) audioBlob
         @ (case streamRef c of Some stream \<Rightarrow> [StopTracks stream] | None \<Rightarrow> []))"

definition handleReset :: "action list" where
  "handleReset =
     [SetTranscript (Some []), SetReply [], SetError None, SetShowExplanation False,
      SetIsIVRMode False, SynthCancel, SetIsPlaying False]"

subsection \<open>Speech output\<close>

text \<open>
  The effect that runs when \<^verbatim>\<open>reply\<close> has changed. The browser has no speech synthesis,
  or something in the \<^verbatim>\<open>try\<close> block throws before the synthesiser is touched, or it has
  these voices.
\<close>

datatype synth_env = Unavailable | Throws | Voices "voice list"

definition lang_includes :: "jsstring \<Rightarrow> voice \<Rightarrow> bool" where
  "lang_includes tag v = (case lang v of None \<Rightarrow> False | Some l \<Rightarrow> js_includes l tag)"

definition lang_lower_includes :: "(jsstring \<Rightarrow> jsstring) \<Rightarrow> jsstring \<Rightarrow> voice \<Rightarrow> bool" where
  "lang_lower_includes lower tag v =
     (case lang v of None \<Rightarrow> False | Some l \<Rightarrow> js_includes (lower l) tag)"

definition lang_startsWith :: "jsstring \<Rightarrow> voice \<Rightarrow> bool" where
  "lang_startsWith tag v = (case lang v of None \<Rightarrow> False | Some l \<Rightarrow> prefix tag l)"

definition select_voice ::
  "(jsstring \<Rightarrow> jsstring) \<Rightarrow> voice list \<Rightarrow> jsstring \<Rightarrow> voice option" where
  "select_voice lower voices r =
     (let isMalayalam = regex_test [(0x0D00, 0x0D7F)] r;
          isHindi = regex_test [(0x0900, 0x097F)] r;
          pref = (if isMalayalam then find (lang_lower_includes lower (js ''ml'')) voices
                  else if isHindi then find (lang_lower_includes lower (js ''hi'')) voices
                  else None)
      in case pref of
           Some v \<Rightarrow> Some v
         | None \<Rightarrow>
             (case find (lang_includes (js ''en-IN'')) voices of
                Some v \<Rightarrow> Some v
              | None \<Rightarrow> find (lang_startsWith (js ''en'')) voices))"

definition tts_effect :: "(jsstring \<Rightarrow> jsstring) \<Rightarrow> synth_env \<Rightarrow> jsstring \<Rightarrow> action list" where
  "tts_effect lower env r =
     (if r = [] then []
      else case env of
             Unavailable \<Rightarrow> []
           | Throws \<Rightarrow> [ConsoleError]
           | Voices voices \<Rightarrow>
               (let u = \<lparr>u_text = r, u_voice = select_voice lower voices r\<rparr>
                in [AssignUtteranceRef u, SynthCancel, SynthSpeak u, SetIsPlaying True]))"

text \<open>
  One turn of the event loop: a handler's actions are performed, the component renders,
  and the effect runs if \<^verbatim>\<open>reply\<close> is not what it was at the previous render. The events
  are the handlers of the component (the press and release of the button, the recorder's
  two callbacks, the reset button, the language selector and the three toggles) and the
  end of the utterance being spoken (\<^verbatim>\<open>onend\<close> or \<^verbatim>\<open>onerror\<close>), which leaves the queue.
\<close>

datatype ui_event =
    Press capture_env
  | Release
  | DataAvailable blob
  | Stopped transcribe_outcome delegation recorder
  | Reset
  | SelectLanguage jsstring
  | ToggleLargeText
  | ToggleIVRMode
  | TogglePlaying
  | UtteranceEnded

definition handler :: "(jsstring \<Rightarrow> jsstring) \<Rightarrow> ui_event \<Rightarrow> console \<Rightarrow> action list" where
  "handler lower ev c =
     (case ev of
        Press env \<Rightarrow> startRecording env c
      | Release \<Rightarrow> stopRecording c
      | DataAvailable data \<Rightarrow> ondataavailable data
      | Stopped outcome d r \<Rightarrow> onstop lower outcome d r c
      | Reset \<Rightarrow> handleReset
      | SelectLanguage l \<Rightarrow> [SetSelectedLanguage l]
      | ToggleLargeText \<Rightarrow> [SetIsLargeText (\<not> isLargeText c)]
      | ToggleIVRMode \<Rightarrow> [SetIsIVRMode (\<not> isIVRMode c)]
      | TogglePlaying \<Rightarrow> [SetIsPlaying (\<not> isPlaying c)]
      | UtteranceEnded \<Rightarrow> [SetIsPlaying False])"

definition platform :: "ui_event \<Rightarrow> console \<Rightarrow> console" where
  "platform ev c =
     (case ev of UtteranceEnded \<Rightarrow> c\<lparr>synth_queue := tl (synth_queue c)\<rparr> | _ \<Rightarrow> c)"

definition render ::
  "(jsstring \<Rightarrow> jsstring) \<Rightarrow> synth_env \<Rightarrow> jsstring \<Rightarrow> console \<Rightarrow> console" where
  "render lower env previous c =
     (if reply c \<noteq> previous then run (tts_effect lower env (reply c)) c else c)"

definition step ::
  "(jsstring \<Rightarrow> jsstring) \<Rightarrow> synth_env \<Rightarrow> ui_event \<Rightarrow> console \<Rightarrow> console" where
  "step lower env ev c = render lower env (reply c) (run (handler lower ev c) (platform ev c))"

definition steps ::
  "(jsstring \<Rightarrow> jsstring) \<Rightarrow> synth_env \<Rightarrow> ui_event list \<Rightarrow> console \<Rightarrow> console" where
  "steps lower env evs c = fold (step lower env) evs c"

section \<open>Facts about the string operations\<close>

lemma set_set_add: "set (set_add x xs) = insert x (set xs)"
  by (auto simp: set_add_def)

lemma set_add_when: "set (add_when b x xs) = (if b then insert x (set xs) else set xs)"
  by (simp add: add_when_def set_set_add)

lemma add_when_False: "add_when False x xs = xs"
  by (simp add: add_when_def)

lemma add_when_True_Nil: "add_when True x [] = [x]"
  by (simp add: add_when_def set_add_def)

lemma regex_test_iff: "regex_test rs t \<longleftrightarrow> (\<exists>c \<in> set t. in_ranges rs c)"
  by (simp add: regex_test_def list_ex_iff)

lemma in_ranges_single: "in_ranges [(lo, hi)] c \<longleftrightarrow> lo \<le> c \<and> c \<le> hi"
  by (simp add: in_ranges_def)

lemma in_ranges_letters: "in_ranges [(0x61, 0x7A), (0x41, 0x5A)] c \<longleftrightarrow> is_ascii_letter c"
  by (simp add: in_ranges_def is_ascii_letter_def)

lemma latin_only_no_block:
  assumes "latin_only t"
    and "(0x0600 \<le> lo \<and> hi \<le> 0x06FF) \<or> (0x0900 \<le> lo \<and> hi \<le> 0x0D7F)"
  shows "\<not> regex_test [(lo, hi)] t"
proof
  assume "regex_test [(lo, hi)] t"
  then obtain c where c: "c \<in> set t" "lo \<le> c" "c \<le> hi"
    by (auto simp: regex_test_iff in_ranges_single)
  from assms(1) c(1) have "\<not> in_other_script c"
    by (simp add: latin_only_def list_all_iff)
  with assms(2) c(2,3) show False
    by (auto simp: in_other_script_def)
qed

lemma letters_test: "regex_test [(0x61, 0x7A), (0x41, 0x5A)] t \<longleftrightarrow> list_ex is_ascii_letter t"
  by (simp add: regex_test_iff in_ranges_letters list_ex_iff)

lemma devanagari_test: "regex_test [(0x0900, 0x097F)] t \<longleftrightarrow> list_ex is_devanagari t"
  by (simp add: regex_test_iff in_ranges_single is_devanagari_def list_ex_iff)

lemma detect_latin_only:
  assumes "latin_only t" and "list_ex is_ascii_letter t"
  shows "detectLanguagesInText t = [''English'']"
proof -
  note nb = latin_only_no_block [OF assms(1)]
  have "\<not> regex_test [(0x0900, 0x097F)] t" "\<not> regex_test [(0x0B80, 0x0BFF)] t"
    "\<not> regex_test [(0x0C00, 0x0C7F)] t" "\<not> regex_test [(0x0D00, 0x0D7F)] t"
    "\<not> regex_test [(0x0C80, 0x0CFF)] t" "\<not> regex_test [(0x0980, 0x09FF)] t"
    "\<not> regex_test [(0x0A80, 0x0AFF)] t" "\<not> regex_test [(0x0A00, 0x0A7F)] t"
    by (rule nb, simp)+
  moreover have "regex_test [(0x61, 0x7A), (0x41, 0x5A)] t"
    using assms(2) by (simp add: letters_test)
  ultimately show ?thesis
    by (simp add: detectLanguagesInText_def add_when_False add_when_True_Nil)
qed

lemma detect2_latin_only:
  assumes "latin_only t" and "list_ex is_ascii_letter t"
  shows "detectLanguagesInText2 t = [''English'']"
proof -
  note nb = latin_only_no_block [OF assms(1)]
  have "\<not> regex_test [(0x0900, 0x097F)] t" "\<not> regex_test [(0x0B80, 0x0BFF)] t"
    "\<not> regex_test [(0x0C00, 0x0C7F)] t" "\<not> regex_test [(0x0D00, 0x0D7F)] t"
    "\<not> regex_test [(0x0C80, 0x0CFF)] t" "\<not> regex_test [(0x0980, 0x09FF)] t"
    "\<not> regex_test [(0x0A80, 0x0AFF)] t" "\<not> regex_test [(0x0A00, 0x0A7F)] t"
    "\<not> regex_test [(0x0B00, 0x0B7F)] t" "\<not> regex_test [(0x0600, 0x06FF)] t"
    by (rule nb, simp)+
  moreover have "regex_test [(0x61, 0x7A), (0x41, 0x5A)] t"
    using assms(2) by (simp add: letters_test)
  ultimately show ?thesis
    by (simp add: detectLanguagesInText2_def add_when_False add_when_True_Nil)
qed

lemma set_detect:
  "set (detectLanguagesInText t) \<supseteq>
     (if list_ex is_devanagari t then {''Hindi''} else {})
     \<union> (if list_ex is_ascii_letter t then {''English''} else {})"
  by (auto simp: detectLanguagesInText_def set_add_when letters_test devanagari_test)

lemma set_detect2:
  "set (detectLanguagesInText2 t) \<supseteq>
     (if list_ex is_devanagari t then {''Hindi''} else {})
     \<union> (if list_ex is_ascii_letter t then {''English''} else {})"
  by (auto simp: detectLanguagesInText2_def set_add_when letters_test devanagari_test)

section \<open>Script detection: the claims\<close>

text \<open>
  Claim C9, as amended. For every transcript in which no code unit belongs to another
  script block (so for every Latin-script-only transcript) and at least one code unit is
  an ASCII letter, matching \<^verbatim>\<open>[a-zA-Z]\<close>, \<^verbatim>\<open>detectLanguagesInText\<close> returns exactly the
  one-element list \<open>English\<close>; for every transcript with at least one Devanagari code
  unit and at least one ASCII letter, the result contains both \<open>Hindi\<close> and \<open>English\<close>.
  Both revisions of the route agree on this. A Latin letter outside ASCII, such as
  \<open>U+00E9\<close>, does not count: alone it gives the empty list, and with Devanagari only
  \<open>Hindi\<close>.
\<close>

theorem detectLanguagesInText_latin_and_mixed:
  "(latin_only t \<and> list_ex is_ascii_letter t \<longrightarrow>
      detectLanguagesInText t = [''English''] \<and> detectLanguagesInText2 t = [''English''])
   \<and> (list_ex is_devanagari t \<and> list_ex is_ascii_letter t \<longrightarrow>
      {''Hindi'', ''English''} \<subseteq> set (detectLanguagesInText t)
      \<and> {''Hindi'', ''English''} \<subseteq> set (detectLanguagesInText2 t))"
proof (intro conjI impI)
  assume "latin_only t \<and> list_ex is_ascii_letter t"
  then show "detectLanguagesInText t = [''English'']"
    by (simp add: detect_latin_only)
next
  assume "latin_only t \<and> list_ex is_ascii_letter t"
  then show "detectLanguagesInText2 t = [''English'']"
    by (simp add: detect2_latin_only)
next
  assume "list_ex is_devanagari t \<and> list_ex is_ascii_letter t"
  then show "{''Hindi'', ''English''} \<subseteq> set (detectLanguagesInText t)"
    using set_detect [of t] by simp
next
  assume "list_ex is_devanagari t \<and> list_ex is_ascii_letter t"
  then show "{''Hindi'', ''English''} \<subseteq> set (detectLanguagesInText2 t)"
    using set_detect2 [of t] by simp
qed

theorem detectLanguagesInText_latin_and_mixed_witness:
  "latin_only (js ''Hello'') \<and> list_ex is_ascii_letter (js ''Hello'')
   \<and> detectLanguagesInText (js ''Hello'') = [''English'']
   \<and> detectLanguagesInText2 (js ''Hello'') = [''English'']
   \<and> list_ex is_devanagari [0x0928, 0x61] \<and> list_ex is_ascii_letter [0x0928, 0x61]
   \<and> {''Hindi'', ''English''} \<subseteq> set (detectLanguagesInText [0x0928, 0x61])
   \<and> {''Hindi'', ''English''} \<subseteq> set (detectLanguagesInText2 [0x0928, 0x61])"
proof -
  have l: "latin_only (js ''Hello'') \<and> list_ex is_ascii_letter (js ''Hello'')"
    by (simp add: js_def latin_only_def in_other_script_def is_ascii_letter_def)
  have m: "list_ex is_devanagari [0x0928, 0x61] \<and> list_ex is_ascii_letter [0x0928, 0x61]"
    by (simp add: is_devanagari_def is_ascii_letter_def)
  show ?thesis
    using l m detectLanguagesInText_latin_and_mixed [of "js ''Hello''"]
      detectLanguagesInText_latin_and_mixed [of "[0x0928, 0x61]"]
    by blast
qed

theorem detectLanguagesInText_latin_letter_counterexample:
  "latin_only [0xE9] \<and> list_ex is_latin_letter [0xE9]
   \<and> detectLanguagesInText [0xE9] = []
   \<and> list_ex is_devanagari [0x0928, 0xE9] \<and> list_ex is_latin_letter [0x0928, 0xE9]
   \<and> detectLanguagesInText [0x0928, 0xE9] = [''Hindi'']"
  by (simp add: latin_only_def in_other_script_def is_latin_letter_def is_ascii_letter_def
      is_devanagari_def detectLanguagesInText_def regex_test_def in_ranges_def add_when_def
      set_add_def)

section \<open>Intent resolution: facts and claims\<close>

lemma run_Nil: "run [] c = c"
  by (simp add: run_def)

lemma run_Cons: "run (a # acts) c = run acts (perform a c)"
  by (simp add: run_def)

lemma run_append: "run (xs @ ys) c = run ys (run xs c)"
  by (simp add: run_def)

lemma trim_eq_Nil: "trim s = [] \<longleftrightarrow> (\<forall>c \<in> set s. is_js_whitespace c)"
proof -
  let ?d = "dropWhile is_js_whitespace s"
  have "trim s = [] \<longleftrightarrow> (\<forall>c \<in> set ?d. is_js_whitespace c)"
    by (simp add: trim_def dropWhile_eq_Nil_conv)
  also have "\<dots> \<longleftrightarrow> ?d = []"
  proof
    assume all: "\<forall>c \<in> set ?d. is_js_whitespace c"
    show "?d = []"
    proof (rule ccontr)
      assume ne: "?d \<noteq> []"
      then have "\<not> is_js_whitespace (hd ?d)" by (rule hd_dropWhile)
      moreover from ne have "hd ?d \<in> set ?d" by simp
      ultimately show False using all by blast
    qed
  next
    assume "?d = []"
    then show "\<forall>c \<in> set ?d. is_js_whitespace c" by (simp only: list.set ball_empty)
  qed
  also have "\<dots> \<longleftrightarrow> (\<forall>c \<in> set s. is_js_whitespace c)"
    by (simp add: dropWhile_eq_Nil_conv)
  finally show ?thesis .
qed

lemma js_includes_set: "js_includes s k \<Longrightarrow> set k \<subseteq> set s"
proof (induction s)
  case Nil
  then show ?case by simp
next
  case (Cons c s)
  from Cons.prems have "prefix k (c # s) \<or> js_includes s k" by simp
  then show ?case
  proof
    assume "prefix k (c # s)"
    then show ?thesis by (rule set_mono_prefix)
  next
    assume "js_includes s k"
    then have "set k \<subseteq> set s" by (rule Cons.IH)
    then show ?thesis by auto
  qed
qed

lemma conforming_ascii:
  "conforming_lower lower \<Longrightarrow> list_all (\<lambda>c. c < 0x80) s \<Longrightarrow> lower s = map ascii_lower_unit s"
  by (simp add: conforming_lower_def)

lemma conforming_blank:
  "conforming_lower lower \<Longrightarrow> list_all is_js_whitespace s \<Longrightarrow> lower s = s"
  by (simp add: conforming_lower_def)

lemma ascii_lower_whitespace: "is_js_whitespace c \<Longrightarrow> ascii_lower_unit c = c"
  by (auto simp: is_js_whitespace_def ascii_lower_unit_def)

lemma conforming_lower_ascii: "conforming_lower lower_ascii"
proof -
  have "map ascii_lower_unit s = s" if "list_all is_js_whitespace s" for s
    using that by (induction s) (simp_all add: ascii_lower_whitespace)
  then show ?thesis
    by (simp add: conforming_lower_def lower_ascii_def)
qed

lemma includes_nonblank:
  assumes "conforming_lower lower" and "js_includes (lower t) k" and "x \<in> set k"
    and "\<not> is_js_whitespace x"
  shows "trim t \<noteq> []"
proof
  assume "trim t = []"
  then have ws: "\<forall>c \<in> set t. is_js_whitespace c" by (simp add: trim_eq_Nil)
  then have "list_all is_js_whitespace t" by (simp add: list_all_iff)
  with assms(1) have "lower t = t" by (rule conforming_blank)
  with assms(2) have "set k \<subseteq> set t" using js_includes_set by fastforce
  with assms(3) have "x \<in> set t" by blast
  with ws assms(4) show False by blast
qed

lemma keys_distinct: "js ''power outage'' \<noteq> js ''water tank''"
  by (simp add: js_def)

lemma keys_nonempty: "js ''power outage'' \<noteq> []" "js ''water tank'' \<noteq> []"
  by (simp_all add: js_def)

lemma matchedScenario_cases:
  "matchedScenario l =
     (if js_includes l (js ''power outage'') then Some (js ''power outage'')
      else if js_includes l (js ''water tank'') then Some (js ''water tank'')
      else None)"
  by (simp add: matchedScenario_def scenarioResponses_def)

lemma power_nonblank:
  "conforming_lower lower \<Longrightarrow> js_includes (lower t) (js ''power outage'') \<Longrightarrow> trim t \<noteq> []"
  using includes_nonblank [of lower t "js ''power outage''" 112]
  by (simp add: js_def is_js_whitespace_def)

lemma water_nonblank:
  "conforming_lower lower \<Longrightarrow> js_includes (lower t) (js ''water tank'') \<Longrightarrow> trim t \<noteq> []"
  using includes_nonblank [of lower t "js ''water tank''" 119]
  by (simp add: js_def is_js_whitespace_def)

lemma first_reply_power:
  "first_reply (js ''power outage'') = Some (hd (snd (scenarioResponses ! 0)))"
  by (simp add: first_reply_def scenarioResponses_def)

lemma first_reply_water:
  "first_reply (js ''water tank'') = Some (hd (snd (scenarioResponses ! 1)))"
  using keys_distinct by (simp add: first_reply_def scenarioResponses_def)

lemma explanation_power:
  "map_of aiExplanationData (js ''power outage'') = Some (snd (aiExplanationData ! 0))"
  by (simp add: aiExplanationData_def)

lemma explanation_water:
  "map_of aiExplanationData (js ''water tank'') = Some (snd (aiExplanationData ! 1))"
  using keys_distinct by (simp add: aiExplanationData_def)

lemma processBusinessLogic_power:
  assumes "trim t \<noteq> []" and "js_includes (lower t) (js ''power outage'')"
  shows "processBusinessLogic lower d t =
     [SetReply (hd (snd (scenarioResponses ! 0))),
      SetCurrentExplanation (Some (snd (aiExplanationData ! 0))),
      SetShowExplanation True]"
  using assms keys_nonempty
  by (simp add: processBusinessLogic_def matchedScenario_cases first_reply_power
      explanation_power)

lemma processBusinessLogic_water:
  assumes "trim t \<noteq> []" and "\<not> js_includes (lower t) (js ''power outage'')"
    and "js_includes (lower t) (js ''water tank'')"
  shows "processBusinessLogic lower d t =
     [SetReply (hd (snd (scenarioResponses ! 1))),
      SetCurrentExplanation (Some (snd (aiExplanationData ! 1))),
      SetShowExplanation True]"
  using assms keys_nonempty
  by (simp add: processBusinessLogic_def matchedScenario_cases first_reply_water
      explanation_water)

lemma processBusinessLogic_unmatched:
  assumes "trim t \<noteq> []"
    and "\<not> js_includes (lower t) (js ''power outage'')"
    and "\<not> js_includes (lower t) (js ''water tank'')"
  shows "processBusinessLogic lower d t = delegate d t"
  using assms by (simp add: processBusinessLogic_def matchedScenario_cases)

lemma processBusinessLogic_blank: "trim t = [] \<Longrightarrow> processBusinessLogic lower d t = []"
  by (simp add: processBusinessLogic_def)

lemma reply_run_delegate: "reply (run (delegate d t) c) = default_fallback"
  by (cases d) (simp_all add: delegate_def run_Cons run_Nil)

lemma water_input_lower:
  assumes "conforming_lower lower"
  shows "lower (js ''Our water tank is almost empty'') = js ''our water tank is almost empty''"
    and "js_includes (lower (js ''Our water tank is almost empty'')) (js ''water tank'')"
    and "\<not> js_includes (lower (js ''Our water tank is almost empty'')) (js ''power outage'')"
proof -
  show l: "lower (js ''Our water tank is almost empty'') = js ''our water tank is almost empty''"
    using conforming_ascii [OF assms, of "js ''Our water tank is almost empty''"]
    by (simp add: js_def ascii_lower_unit_def)
  show "js_includes (lower (js ''Our water tank is almost empty'')) (js ''water tank'')"
    unfolding l by (simp add: js_def)
  show "\<not> js_includes (lower (js ''Our water tank is almost empty'')) (js ''power outage'')"
    unfolding l by (simp add: js_def)
qed

lemma hello_lower:
  assumes "conforming_lower lower"
  shows "\<not> js_includes (lower (js ''hello'')) (js ''water tank'')"
    and "\<not> js_includes (lower (js ''hello'')) (js ''power outage'')"
proof -
  have l: "lower (js ''hello'') = js ''hello''"
    using conforming_ascii [OF assms, of "js ''hello''"]
    by (simp add: js_def ascii_lower_unit_def)
  show "\<not> js_includes (lower (js ''hello'')) (js ''water tank'')"
    unfolding l by (simp add: js_def)
  show "\<not> js_includes (lower (js ''hello'')) (js ''power outage'')"
    unfolding l by (simp add: js_def)
qed

lemma hello_nonblank: "trim (js ''hello'') \<noteq> []"
  by (simp add: js_def trim_def is_js_whitespace_def)

lemma js_includes_sublist: "js_includes s t \<longleftrightarrow> sublist t s"
  by (induction s) (simp_all add: sublist_Cons_right)

lemma reply_run_scenario:
  "reply (run [SetReply r, SetCurrentExplanation e, SetShowExplanation b] c) = r"
  by (simp add: run_Cons run_Nil)

lemma scenario_replies_nonempty:
  "hd (snd (scenarioResponses ! 0)) \<noteq> []" "hd (snd (scenarioResponses ! 1)) \<noteq> []"
  by (simp_all add: scenarioResponses_def js_def)

lemma scenario_replies_not_fallback:
  "hd (snd (scenarioResponses ! 0)) \<noteq> default_fallback"
  "hd (snd (scenarioResponses ! 1)) \<noteq> default_fallback"
  by (simp_all add: scenarioResponses_def default_fallback_def js_def)

lemma scenario_entries:
  "scenarioResponses ! 0 = (js ''power outage'', snd (scenarioResponses ! 0))"
  "scenarioResponses ! 1 = (js ''water tank'', snd (scenarioResponses ! 1))"
  "snd (scenarioResponses ! 0) = hd (snd (scenarioResponses ! 0)) # tl (snd (scenarioResponses ! 0))"
  "snd (scenarioResponses ! 1) = hd (snd (scenarioResponses ! 1)) # tl (snd (scenarioResponses ! 1))"
  "length scenarioResponses = 2"
  by (simp_all add: scenarioResponses_def)

lemma first_match:
  assumes nb: "trim t \<noteq> []"
    and h: "i < length scenarioResponses
      \<and> js_includes (lower t) (fst (scenarioResponses ! i))
      \<and> (\<forall>j<i. \<not> js_includes (lower t) (fst (scenarioResponses ! j)))"
  shows "\<exists>r rs e. snd (scenarioResponses ! i) = r # rs
          \<and> map_of aiExplanationData (fst (scenarioResponses ! i)) = Some e
          \<and> processBusinessLogic lower d t =
              [SetReply r, SetCurrentExplanation (Some e), SetShowExplanation True]"
proof -
  from h have "i = 0 \<or> i = 1" by (auto simp: scenario_entries(5))
  then show ?thesis
  proof
    assume i: "i = 0"
    with h have inc: "js_includes (lower t) (js ''power outage'')"
      by (simp add: scenarioResponses_def)
    have "fst (scenarioResponses ! 0) = js ''power outage''"
      by (simp add: scenarioResponses_def)
    with i scenario_entries(3) explanation_power processBusinessLogic_power [of t lower d, OF nb inc]
    show ?thesis by metis
  next
    assume i: "i = 1"
    with h have inc: "js_includes (lower t) (js ''water tank'')"
      and ninc: "\<not> js_includes (lower t) (js ''power outage'')"
      by (simp_all add: scenarioResponses_def)
    have "fst (scenarioResponses ! 1) = js ''water tank''"
      by (simp add: scenarioResponses_def)
    with i scenario_entries(4) explanation_water processBusinessLogic_water [of t lower d, OF nb ninc inc]
    show ?thesis by metis
  qed
qed

lemma match_nonblank:
  assumes "conforming_lower lower" and "i < length scenarioResponses"
    and "js_includes (lower t) (fst (scenarioResponses ! i))"
  shows "trim t \<noteq> []"
proof -
  from assms(2) have "i = 0 \<or> i = 1" by (auto simp: scenario_entries(5))
  then show ?thesis
  proof
    assume "i = 0"
    with assms(3) have "js_includes (lower t) (js ''power outage'')"
      by (simp add: scenarioResponses_def)
    with assms(1) show ?thesis by (rule power_nonblank)
  next
    assume "i = 1"
    with assms(3) have "js_includes (lower t) (js ''water tank'')"
      by (simp add: scenarioResponses_def)
    with assms(1) show ?thesis by (rule water_nonblank)
  qed
qed

text \<open>
  Claim C5. The transcript is lower-cased by the engine and the triggers are tried by
  substring containment in the order of the table: when the trigger at position \<open>i\<close>
  occurs in the lower-cased transcript and none before it does, the resolver sets the
  first candidate reply of that trigger and its explanation record and shows the
  explanation. The transcript \<open>Our water tank is almost empty\<close> gets the water-tank reply
  and an explanation record of confidence 92. This holds for every lower-casing function
  that conforms, so for the engine's.
\<close>

theorem scenario_first_match_wins:
  "conforming_lower lower \<longrightarrow>
   (i < length scenarioResponses
      \<and> js_includes (lower t) (fst (scenarioResponses ! i))
      \<and> (\<forall>j<i. \<not> js_includes (lower t) (fst (scenarioResponses ! j)))
    \<longrightarrow> (\<exists>r rs e. snd (scenarioResponses ! i) = r # rs
          \<and> map_of aiExplanationData (fst (scenarioResponses ! i)) = Some e
          \<and> processBusinessLogic lower d t =
              [SetReply r, SetCurrentExplanation (Some e), SetShowExplanation True]))
   \<and> (\<exists>e. processBusinessLogic lower d (js ''Our water tank is almost empty'') =
              [SetReply (js ''Water tank level critical. Refill scheduled for tomorrow morning between 6-8 AM. You'll receive an SMS confirmation shortly.''),
               SetCurrentExplanation (Some e), SetShowExplanation True]
          \<and> confidence e = 92)"
proof (intro conjI impI)
  assume c: "conforming_lower lower"
  assume h: "i < length scenarioResponses
      \<and> js_includes (lower t) (fst (scenarioResponses ! i))
      \<and> (\<forall>j<i. \<not> js_includes (lower t) (fst (scenarioResponses ! j)))"
  from c h have "trim t \<noteq> []" using match_nonblank by blast
  then show "\<exists>r rs e. snd (scenarioResponses ! i) = r # rs
          \<and> map_of aiExplanationData (fst (scenarioResponses ! i)) = Some e
          \<and> processBusinessLogic lower d t =
              [SetReply r, SetCurrentExplanation (Some e), SetShowExplanation True]"
    using h by (rule first_match)
next
  assume c: "conforming_lower lower"
  have nb: "trim (js ''Our water tank is almost empty'') \<noteq> []"
    using c water_input_lower(2) [OF c] by (rule water_nonblank)
  have "processBusinessLogic lower d (js ''Our water tank is almost empty'') =
     [SetReply (hd (snd (scenarioResponses ! 1))),
      SetCurrentExplanation (Some (snd (aiExplanationData ! 1))),
      SetShowExplanation True]"
    using nb water_input_lower(3) [OF c] water_input_lower(2) [OF c]
    by (rule processBusinessLogic_water)
  moreover have "hd (snd (scenarioResponses ! 1)) =
      js ''Water tank level critical. Refill scheduled for tomorrow morning between 6-8 AM. You'll receive an SMS confirmation shortly.''"
    by (simp add: scenarioResponses_def)
  moreover have "confidence (snd (aiExplanationData ! 1)) = 92"
    by (simp add: aiExplanationData_def)
  ultimately show "\<exists>e. processBusinessLogic lower d (js ''Our water tank is almost empty'') =
              [SetReply (js ''Water tank level critical. Refill scheduled for tomorrow morning between 6-8 AM. You'll receive an SMS confirmation shortly.''),
               SetCurrentExplanation (Some e), SetShowExplanation True]
          \<and> confidence e = 92"
    by simp
qed

theorem scenario_first_match_wins_witness:
  "conforming_lower lower_ascii
   \<and> 0 < length scenarioResponses
   \<and> js_includes (lower_ascii (js ''There's a POWER OUTAGE and the water tank is dry''))
       (fst (scenarioResponses ! 0))
   \<and> (\<exists>r rs e. snd (scenarioResponses ! 0) = r # rs
        \<and> map_of aiExplanationData (fst (scenarioResponses ! 0)) = Some e
        \<and> processBusinessLogic lower_ascii NullBody
            (js ''There's a POWER OUTAGE and the water tank is dry'') =
            [SetReply r, SetCurrentExplanation (Some e), SetShowExplanation True])"
proof -
  have a: "0 < length scenarioResponses"
    by (simp add: scenarioResponses_def)
  have b: "js_includes (lower_ascii (js ''There's a POWER OUTAGE and the water tank is dry''))
       (fst (scenarioResponses ! 0))"
    by (simp add: scenarioResponses_def js_def lower_ascii_def ascii_lower_unit_def)
  show ?thesis
    using a b conforming_lower_ascii
      scenario_first_match_wins
        [of lower_ascii 0 "js ''There's a POWER OUTAGE and the water tank is dry''" NullBody]
    by simp
qed

lemma no_post_in_scenario:
  "PostMistral p \<notin> set [SetReply r, SetCurrentExplanation e, SetShowExplanation b]"
  by simp

lemma scenario_replies_not_ai:
  "hd (snd (scenarioResponses ! 0)) \<noteq> ai_offline"
  "hd (snd (scenarioResponses ! 1)) \<noteq> ai_offline"
  by (simp_all add: scenarioResponses_def ai_offline_def js_def)

text \<open>
  Claim C10. When a trigger matches the transcript as the engine lower-cases it, the
  resolver performs exactly three actions whatever the text-generation service would have
  answered: it sets the scenario's first reply, sets its explanation record and shows the
  explanation. No request to the service is among them, and no other assignment to the
  reply: neither the delegated answer, nor the offline apology, nor the general fallback
  sentence. This holds for every lower-casing function that conforms, so for the
  engine's.
\<close>

theorem scenario_match_returns_early:
  "conforming_lower lower \<and> matchedScenario (lower t) = Some k \<longrightarrow>
     (\<exists>r e. first_reply k = Some r \<and> map_of aiExplanationData k = Some e
        \<and> processBusinessLogic lower d t =
            [SetReply r, SetCurrentExplanation (Some e), SetShowExplanation True]
        \<and> r \<noteq> default_fallback \<and> r \<noteq> ai_offline)
     \<and> (\<forall>p. PostMistral p \<notin> set (processBusinessLogic lower d t))
     \<and> SetReply default_fallback \<notin> set (processBusinessLogic lower d t)
     \<and> processBusinessLogic lower d t = processBusinessLogic lower d' t"
proof
  assume cm: "conforming_lower lower \<and> matchedScenario (lower t) = Some k"
  then have c: "conforming_lower lower" and m: "matchedScenario (lower t) = Some k"
    by simp_all
  show "(\<exists>r e. first_reply k = Some r \<and> map_of aiExplanationData k = Some e
        \<and> processBusinessLogic lower d t =
            [SetReply r, SetCurrentExplanation (Some e), SetShowExplanation True]
        \<and> r \<noteq> default_fallback \<and> r \<noteq> ai_offline)
     \<and> (\<forall>p. PostMistral p \<notin> set (processBusinessLogic lower d t))
     \<and> SetReply default_fallback \<notin> set (processBusinessLogic lower d t)
     \<and> processBusinessLogic lower d t = processBusinessLogic lower d' t"
  proof (cases "js_includes (lower t) (js ''power outage'')")
    case True
    with m have k: "k = js ''power outage''"
      by (simp add: matchedScenario_cases)
    have nb: "trim t \<noteq> []" using c True by (rule power_nonblank)
    show ?thesis
      unfolding k processBusinessLogic_power [of t lower, OF nb True]
      using scenario_replies_not_fallback(1) scenario_replies_not_ai(1)
      by (simp add: first_reply_power explanation_power)
  next
    case False
    with m have w: "js_includes (lower t) (js ''water tank'')"
      and k: "k = js ''water tank''"
      by (simp_all add: matchedScenario_cases split: if_splits)
    have nb: "trim t \<noteq> []" using c w by (rule water_nonblank)
    show ?thesis
      unfolding k processBusinessLogic_water [of t lower, OF nb False w]
      using scenario_replies_not_fallback(2) scenario_replies_not_ai(2)
      by (simp add: first_reply_water explanation_water)
  qed
qed

theorem scenario_match_returns_early_witness:
  "conforming_lower lower_ascii
   \<and> matchedScenario (lower_ascii (js ''Power Outage at home'')) = Some (js ''power outage'')
   \<and> PostMistral (js ''Power Outage at home'') \<notin>
          set (processBusinessLogic lower_ascii (Answer (Some (js ''Hi'')))
                 (js ''Power Outage at home''))
   \<and> processBusinessLogic lower_ascii (Answer (Some (js ''Hi''))) (js ''Power Outage at home'') =
       processBusinessLogic lower_ascii FetchRejected (js ''Power Outage at home'')"
proof -
  have "js_includes (lower_ascii (js ''Power Outage at home'')) (js ''power outage'')"
    by (simp add: js_def lower_ascii_def ascii_lower_unit_def)
  then have m: "matchedScenario (lower_ascii (js ''Power Outage at home'')) =
      Some (js ''power outage'')"
    by (simp add: matchedScenario_cases)
  show ?thesis
    using m conforming_lower_ascii scenario_match_returns_early
      [of lower_ascii "js ''Power Outage at home''" "js ''power outage''"
        "Answer (Some (js ''Hi''))" FetchRejected]
    by blast
qed

lemma reply_after_resolution:
  assumes nb: "trim t \<noteq> []"
  shows "reply (run (processBusinessLogic lower d t) c) \<noteq> []"
proof (cases "js_includes (lower t) (js ''power outage'')")
  case True
  with nb show ?thesis
    using scenario_replies_nonempty(1)
    by (simp add: processBusinessLogic_power reply_run_scenario)
next
  case np: False
  show ?thesis
  proof (cases "js_includes (lower t) (js ''water tank'')")
    case True
    with nb np show ?thesis
      using scenario_replies_nonempty(2)
      by (simp add: processBusinessLogic_water reply_run_scenario)
  next
    case False
    with nb np have "processBusinessLogic lower d t = delegate d t"
      by (simp add: processBusinessLogic_unmatched)
    then show ?thesis
      by (simp add: reply_run_delegate default_fallback_def js_def)
  qed
qed

text \<open>
  Claim C1, as amended. Intent resolution is total. For a transcript that is empty or
  white space only it returns at once and sets no reply; for every other transcript, and
  every way the delegation can end (a rejected or timed-out request, a body that is not
  JSON, a null body, an answer with no text), the reply it leaves is not empty. This holds
  whatever the engine's lower-casing is.
\<close>

theorem resolve_reply_nonempty:
  "(trim t = [] \<longrightarrow> processBusinessLogic lower d t = [])
   \<and> (trim t \<noteq> [] \<longrightarrow> reply (run (processBusinessLogic lower d t) c) \<noteq> [])"
proof (intro conjI impI)
  assume "trim t = []"
  then show "processBusinessLogic lower d t = []" by (rule processBusinessLogic_blank)
next
  assume "trim t \<noteq> []"
  then show "reply (run (processBusinessLogic lower d t) c) \<noteq> []"
    by (rule reply_after_resolution)
qed

theorem resolve_reply_nonempty_witness:
  "trim (js ''  '') = [] \<and> processBusinessLogic lower_ascii JsonRejected (js ''  '') = []
   \<and> trim (js ''hello'') \<noteq> []
   \<and> reply (run (processBusinessLogic lower_ascii FetchRejected (js ''hello'')) initial) \<noteq> []"
proof -
  have a: "trim (js ''  '') = []"
    by (simp add: trim_def js_def is_js_whitespace_def)
  show ?thesis
    using a hello_nonblank
      resolve_reply_nonempty [of "js ''  ''" lower_ascii JsonRejected initial]
      resolve_reply_nonempty [of "js ''hello''" lower_ascii FetchRejected initial]
    by blast
qed

theorem resolve_empty_transcript_no_reply:
  "processBusinessLogic lower_ascii FetchRejected [] = []
   \<and> reply (run (processBusinessLogic lower_ascii FetchRejected []) initial) = []"
  by (simp add: processBusinessLogic_def trim_def run_Nil initial_def)

text \<open>
  Claim C2 fails on the code. With no trigger in the transcript \<open>hello\<close> and the answer
  \<open>Hi there\<close> from the text-generation service, the resolver sets the answer as the reply
  and then overwrites it: the reply it leaves is the general fallback sentence. This is so
  for every lower-casing function that conforms, so for the engine's.
\<close>

theorem delegated_reply_overwritten:
  "conforming_lower lower \<longrightarrow>
   matchedScenario (lower (js ''hello'')) = None
   \<and> processBusinessLogic lower (Answer (Some (js ''Hi there''))) (js ''hello'') =
       [PostMistral (js ''hello''), SetReply (js ''Hi there''), SetReply default_fallback]
   \<and> reply (run (processBusinessLogic lower (Answer (Some (js ''Hi there''))) (js ''hello''))
        initial) =
       js ''I understand your query. Connecting you to an agent...''
   \<and> js ''I understand your query. Connecting you to an agent...'' \<noteq> js ''Hi there''"
proof
  assume c: "conforming_lower lower"
  note h = hello_lower [OF c]
  have p: "processBusinessLogic lower (Answer (Some (js ''Hi there''))) (js ''hello'') =
      delegate (Answer (Some (js ''Hi there''))) (js ''hello'')"
    using h hello_nonblank by (simp add: processBusinessLogic_unmatched)
  have o: "or_default (Some (js ''Hi there'')) ai_default = js ''Hi there''"
    by (simp add: or_default_def js_def)
  have n: "js ''I understand your query. Connecting you to an agent...'' \<noteq> js ''Hi there''"
    by (simp add: js_def)
  show "matchedScenario (lower (js ''hello'')) = None
   \<and> processBusinessLogic lower (Answer (Some (js ''Hi there''))) (js ''hello'') =
       [PostMistral (js ''hello''), SetReply (js ''Hi there''), SetReply default_fallback]
   \<and> reply (run (processBusinessLogic lower (Answer (Some (js ''Hi there''))) (js ''hello''))
        initial) =
       js ''I understand your query. Connecting you to an agent...''
   \<and> js ''I understand your query. Connecting you to an agent...'' \<noteq> js ''Hi there''"
    using h n
    by (simp add: p matchedScenario_cases delegate_def o default_fallback_def run_Cons
        run_Nil)
qed

theorem delegated_reply_overwritten_witness:
  "conforming_lower lower_ascii
   \<and> processBusinessLogic lower_ascii (Answer (Some (js ''Hi there''))) (js ''hello'') =
       [PostMistral (js ''hello''), SetReply (js ''Hi there''), SetReply default_fallback]
   \<and> reply (run (processBusinessLogic lower_ascii (Answer (Some (js ''Hi there'')))
        (js ''hello'')) initial) =
       js ''I understand your query. Connecting you to an agent...''"
  using conforming_lower_ascii delegated_reply_overwritten [of lower_ascii] by blast

section \<open>The transcription route: facts and claims\<close>

lemma subtypes_of_validTypes:
  "map subtype_of validTypes = map js [''webm'', ''wav'', ''mp3'', ''m4a'', ''mpeg'', ''ogg'']"
  by (simp add: validTypes_def subtype_of_def js_def)

lemma type_accepted_iff:
  "type_accepted ty =
     list_ex (js_includes ty) (map js [''webm'', ''wav'', ''mp3'', ''m4a'', ''mpeg'', ''ogg''])"
proof -
  have "type_accepted ty = list_ex (js_includes ty) (map subtype_of validTypes)"
    by (simp add: type_accepted_def list_ex_iff)
  then show ?thesis by (simp only: subtypes_of_validTypes)
qed

lemma validTypes_accepted: "list_all type_accepted validTypes"
  by (simp add: type_accepted_iff validTypes_def js_def)

lemma handle_error_not_400: "status (handle_error e) \<noteq> 400"
  by (simp add: handle_error_def error_response_def)

lemma POST_missing:
  "audio_of fd = NoAudio \<Longrightarrow> POST lower service (FormData fd) = ([], error_response 400 MissingAudio)"
  by (simp add: POST_def)

lemma POST_unsupported:
  "audio_of fd = AFile f \<Longrightarrow> \<not> type_accepted (file_type f) \<Longrightarrow>
   POST lower service (FormData fd) = ([], error_response 400 (UnsupportedFormat (file_type f)))"
  by (simp add: POST_def)

lemma POST_too_large:
  "audio_of fd = AFile f \<Longrightarrow> type_accepted (file_type f) \<Longrightarrow> maxSize < file_size f \<Longrightarrow>
   POST lower service (FormData fd) = ([], error_response 400 (PayloadTooLarge (file_size f)))"
  by (simp add: POST_def)

lemma POST_valid:
  assumes "audio_of fd = AFile f" and "type_accepted (file_type f)" and "file_size f \<le> maxSize"
    and "\<not> language_is_file fd"
  shows "(\<exists>params. fst (POST lower service (FormData fd)) = [CallWhisper params] \<and> p_file params = Direct f)
     \<and> status (snd (POST lower service (FormData fd))) \<noteq> 400"
  using assms
  by (cases service; cases "language_of fd")
    (simp_all add: POST_def Let_def handle_error_not_400 language_is_file_def)

lemma POST_language_file:
  assumes "audio_of fd = AFile f" and "type_accepted (file_type f)" and "file_size f \<le> maxSize"
    and "language_is_file fd"
  shows "POST lower service (FormData fd) =
     ([], error_response 500
            (TranscriptionFailed (Some (js ''language?.toLowerCase is not a function''))))"
  using assms
  by (cases "language_of fd")
    (simp_all add: POST_def Let_def language_is_file_def handle_error_def lower_type_error_def
      truthy_def js_def)

lemma POST2_validation:
  "(audio_of fd = NoAudio \<longrightarrow>
      POST2 lower now w service (FormData fd) = ([], error_response 400 MissingAudio))
   \<and> (audio_of fd = AFile f \<and> file_type f \<notin> set allowedTypes \<longrightarrow>
      POST2 lower now w service (FormData fd) =
        ([], error_response 400 (UnsupportedFormat (file_type f))))
   \<and> (audio_of fd = AFile f \<and> file_type f \<in> set allowedTypes \<and> maxSize < file_size f \<longrightarrow>
      POST2 lower now w service (FormData fd) =
        ([], error_response 400 (PayloadTooLarge (file_size f))))
   \<and> (audio_of fd = AFile f \<and> file_type f \<in> set allowedTypes \<and> file_size f \<le> maxSize
        \<and> \<not> language_is_file fd \<and> w = None \<longrightarrow>
      called_service (fst (POST2 lower now w service (FormData fd))))
   \<and> (audio_of fd = AFile f \<and> file_type f \<in> set allowedTypes \<and> file_size f \<le> maxSize
        \<and> language_is_file fd \<longrightarrow>
      POST2 lower now w service (FormData fd) =
        ([], error_response 500
               (TranscriptionFailed (Some (js ''language.toLowerCase is not a function'')))))"
  by (cases service; cases "language_of fd")
    (simp_all add: POST2_def Let_def called_service_def is_call_def language_is_file_def
      handle_error2_def lower_type_error2_def truthy_def js_def)

text \<open>
  Claim C3, as amended. In the route, a file under \<open>audio\<close> whose MIME type contains one of
  the names \<open>webm\<close>, \<open>wav\<close>, \<open>mp3\<close>, \<open>m4a\<close>, \<open>mpeg\<close>, \<open>ogg\<close> (so each of the six listed types)
  and whose size is at most 25 MiB passes validation: the answer is never a 400, and the
  transcription service is called with that file, unless the entry under \<open>language\<close> is
  itself a file, on which the handler throws after the validations and answers 500
  without calling the service. A missing payload is answered \<open>MissingAudio\<close>, a file whose
  type contains none of the names \<open>UnsupportedFormat\<close>, and a file of an accepted type of
  more than 25 MiB \<open>PayloadTooLarge\<close>, each with status 400 and without any call to the
  service.
\<close>

theorem upload_validation:
  "(audio_of fd = NoAudio \<longrightarrow>
      POST lower service (FormData fd) = ([], error_response 400 MissingAudio))
   \<and> (audio_of fd = AFile f \<and> \<not> type_accepted (file_type f) \<longrightarrow>
      POST lower service (FormData fd) = ([], error_response 400 (UnsupportedFormat (file_type f))))
   \<and> (audio_of fd = AFile f \<and> type_accepted (file_type f) \<and> maxSize < file_size f \<longrightarrow>
      POST lower service (FormData fd) = ([], error_response 400 (PayloadTooLarge (file_size f))))
   \<and> (audio_of fd = AFile f \<and> type_accepted (file_type f) \<and> file_size f \<le> maxSize
        \<and> \<not> language_is_file fd \<longrightarrow>
      (\<exists>params. fst (POST lower service (FormData fd)) = [CallWhisper params]
         \<and> p_file params = Direct f)
      \<and> status (snd (POST lower service (FormData fd))) \<noteq> 400)
   \<and> (audio_of fd = AFile f \<and> type_accepted (file_type f) \<and> file_size f \<le> maxSize
        \<and> language_is_file fd \<longrightarrow>
      POST lower service (FormData fd) =
        ([], error_response 500
               (TranscriptionFailed (Some (js ''language?.toLowerCase is not a function'')))))
   \<and> type_accepted ty =
       list_ex (js_includes ty) (map js [''webm'', ''wav'', ''mp3'', ''m4a'', ''mpeg'', ''ogg''])
   \<and> list_all type_accepted validTypes
   \<and> maxSize = 26214400"
proof (intro conjI impI)
  assume "audio_of fd = NoAudio"
  then show "POST lower service (FormData fd) = ([], error_response 400 MissingAudio)"
    by (rule POST_missing)
next
  assume "audio_of fd = AFile f \<and> \<not> type_accepted (file_type f)"
  then show "POST lower service (FormData fd) =
      ([], error_response 400 (UnsupportedFormat (file_type f)))"
    by (simp add: POST_unsupported)
next
  assume "audio_of fd = AFile f \<and> type_accepted (file_type f) \<and> maxSize < file_size f"
  then show "POST lower service (FormData fd) =
      ([], error_response 400 (PayloadTooLarge (file_size f)))"
    by (simp add: POST_too_large)
next
  assume "audio_of fd = AFile f \<and> type_accepted (file_type f) \<and> file_size f \<le> maxSize
        \<and> \<not> language_is_file fd"
  then show "\<exists>params. fst (POST lower service (FormData fd)) = [CallWhisper params]
      \<and> p_file params = Direct f"
    using POST_valid [of fd f lower service] by blast
next
  assume "audio_of fd = AFile f \<and> type_accepted (file_type f) \<and> file_size f \<le> maxSize
        \<and> \<not> language_is_file fd"
  then show "status (snd (POST lower service (FormData fd))) \<noteq> 400"
    using POST_valid [of fd f lower service] by blast
next
  assume "audio_of fd = AFile f \<and> type_accepted (file_type f) \<and> file_size f \<le> maxSize
        \<and> language_is_file fd"
  then show "POST lower service (FormData fd) =
        ([], error_response 500
               (TranscriptionFailed (Some (js ''language?.toLowerCase is not a function''))))"
    using POST_language_file [of fd f lower service] by blast
next
  show "type_accepted ty =
      list_ex (js_includes ty) (map js [''webm'', ''wav'', ''mp3'', ''m4a'', ''mpeg'', ''ogg''])"
    by (rule type_accepted_iff)
next
  show "list_all type_accepted validTypes" by (rule validTypes_accepted)
next
  show "maxSize = 26214400" by (simp add: maxSize_def)
qed

theorem upload_validation_witness:
  "audio_of [(js ''language'', TextEntry (js ''hi''))] = NoAudio
   \<and> POST lower_ascii (Threw \<lparr>err_status = Some 401, err_code = None, err_message = None\<rparr>)
        (FormData [(js ''language'', TextEntry (js ''hi''))]) =
       ([], error_response 400 MissingAudio)
   \<and> \<not> type_accepted (js ''text/plain'')
   \<and> POST lower_ascii (Threw \<lparr>err_status = Some 401, err_code = None, err_message = None\<rparr>)
        (FormData [(js ''audio'',
            FileEntry \<lparr>file_name = js ''a.txt'', file_type = js ''text/plain'', file_size = 10\<rparr>)]) =
       ([], error_response 400 (UnsupportedFormat (js ''text/plain'')))
   \<and> type_accepted (js ''audio/wav'') \<and> maxSize < 26214401
   \<and> POST lower_ascii (Threw \<lparr>err_status = Some 401, err_code = None, err_message = None\<rparr>)
        (FormData [(js ''audio'',
            FileEntry \<lparr>file_name = js ''a.wav'', file_type = js ''audio/wav'',
                       file_size = 26214401\<rparr>)]) =
       ([], error_response 400 (PayloadTooLarge 26214401))
   \<and> type_accepted (js ''audio/webm;codecs=opus'') \<and> 26214400 \<le> maxSize
   \<and> \<not> language_is_file
        [(js ''audio'',
            FileEntry \<lparr>file_name = js ''recording.webm'',
                       file_type = js ''audio/webm;codecs=opus'', file_size = 26214400\<rparr>)]
   \<and> status (snd (POST lower_ascii (Threw \<lparr>err_status = Some 401, err_code = None, err_message = None\<rparr>)
        (FormData [(js ''audio'',
            FileEntry \<lparr>file_name = js ''recording.webm'',
                       file_type = js ''audio/webm;codecs=opus'', file_size = 26214400\<rparr>)])))
       \<noteq> 400
   \<and> language_is_file
        [(js ''audio'',
            FileEntry \<lparr>file_name = js ''a.wav'', file_type = js ''audio/wav'', file_size = 10\<rparr>),
         (js ''language'',
            FileEntry \<lparr>file_name = js ''hi.txt'', file_type = js ''text/plain'', file_size = 2\<rparr>)]
   \<and> POST lower_ascii (Threw \<lparr>err_status = Some 401, err_code = None, err_message = None\<rparr>)
        (FormData
          [(js ''audio'',
              FileEntry \<lparr>file_name = js ''a.wav'', file_type = js ''audio/wav'', file_size = 10\<rparr>),
           (js ''language'',
              FileEntry \<lparr>file_name = js ''hi.txt'', file_type = js ''text/plain'', file_size = 2\<rparr>)]) =
       ([], error_response 500
              (TranscriptionFailed (Some (js ''language?.toLowerCase is not a function''))))"
proof -
  let ?svc = "Threw \<lparr>err_status = Some 401, err_code = None, err_message = None\<rparr>"
  let ?f1 = "\<lparr>file_name = js ''a.txt'', file_type = js ''text/plain'', file_size = 10\<rparr>"
  let ?f2 = "\<lparr>file_name = js ''a.wav'', file_type = js ''audio/wav'', file_size = 26214401\<rparr>"
  let ?f3 = "\<lparr>file_name = js ''recording.webm'', file_type = js ''audio/webm;codecs=opus'',
              file_size = 26214400\<rparr>"
  have a0: "audio_of [(js ''language'', TextEntry (js ''hi''))] = NoAudio"
    by (simp add: audio_of_def form_get_def js_def)
  have a: "audio_of [(js ''audio'', FileEntry g)] = AFile g" for g
    by (simp add: audio_of_def form_get_def)
  have t1: "\<not> type_accepted (js ''text/plain'')"
    by (simp add: type_accepted_iff js_def)
  have t2: "type_accepted (js ''audio/wav'')"
    by (simp add: type_accepted_iff js_def)
  have t3: "type_accepted (js ''audio/webm;codecs=opus'')"
    by (simp add: type_accepted_iff js_def)
  have m: "maxSize < 26214401" "26214400 \<le> maxSize"
    by (simp_all add: maxSize_def)
  let ?f4 = "\<lparr>file_name = js ''a.wav'', file_type = js ''audio/wav'', file_size = 10\<rparr>"
  let ?fd4 = "[(js ''audio'', FileEntry ?f4),
      (js ''language'',
         FileEntry \<lparr>file_name = js ''hi.txt'', file_type = js ''text/plain'', file_size = 2\<rparr>)]"
  have n3: "\<not> language_is_file [(js ''audio'', FileEntry ?f3)]"
    by (simp add: language_is_file_def language_of_def form_get_def js_def)
  have a4: "audio_of ?fd4 = AFile ?f4"
    by (simp add: audio_of_def form_get_def)
  have l4: "language_is_file ?fd4"
    by (simp add: language_is_file_def language_of_def form_get_def js_def)
  have m4: "file_size ?f4 \<le> maxSize"
    by (simp add: maxSize_def)
  note u4 = upload_validation [of ?fd4 lower_ascii ?svc ?f4]
  note u0 = upload_validation [of "[(js ''language'', TextEntry (js ''hi''))]" lower_ascii ?svc ?f1]
  note u1 = upload_validation [of "[(js ''audio'', FileEntry ?f1)]" lower_ascii ?svc ?f1]
  note u2 = upload_validation [of "[(js ''audio'', FileEntry ?f2)]" lower_ascii ?svc ?f2]
  note u3 = upload_validation [of "[(js ''audio'', FileEntry ?f3)]" lower_ascii ?svc ?f3]
  have r0: "POST lower_ascii ?svc (FormData [(js ''language'', TextEntry (js ''hi''))]) =
       ([], error_response 400 MissingAudio)"
    using u0 [THEN conjunct1] a0 by blast
  have r1: "POST lower_ascii ?svc (FormData [(js ''audio'', FileEntry ?f1)]) =
       ([], error_response 400 (UnsupportedFormat (js ''text/plain'')))"
    using u1 [THEN conjunct2, THEN conjunct1] a [of ?f1] t1 by simp
  have r2: "POST lower_ascii ?svc (FormData [(js ''audio'', FileEntry ?f2)]) =
       ([], error_response 400 (PayloadTooLarge 26214401))"
    using u2 [THEN conjunct2, THEN conjunct2, THEN conjunct1] a [of ?f2] t2 m(1) by simp
  have r3: "status (snd (POST lower_ascii ?svc (FormData [(js ''audio'', FileEntry ?f3)]))) \<noteq> 400"
    using u3 [THEN conjunct2, THEN conjunct2, THEN conjunct2, THEN conjunct1] a [of ?f3] t3 m(2) n3
    by simp
  have r4: "POST lower_ascii ?svc (FormData ?fd4) =
       ([], error_response 500
              (TranscriptionFailed (Some (js ''language?.toLowerCase is not a function''))))"
    using u4 [THEN conjunct2, THEN conjunct2, THEN conjunct2, THEN conjunct2, THEN conjunct1]
      a4 t2 m4 l4
    by simp
  show ?thesis
    using a0 t1 t2 t3 m r0 r1 r2 r3 n3 l4 r4 by simp
qed

theorem upload_validation_counterexample:
  "called_service (fst (POST lower_ascii (Threw \<lparr>err_status = Some 429, err_code = None, err_message = None\<rparr>)
      (FormData [(js ''audio'',
          FileEntry \<lparr>file_name = js ''clip.mpg'', file_type = js ''video/mpeg'', file_size = 1\<rparr>)])))
   \<and> POST lower_ascii (Threw \<lparr>err_status = Some 429, err_code = None, err_message = None\<rparr>)
      (FormData [(js ''audio'',
          FileEntry \<lparr>file_name = js ''clip.mp4'', file_type = js ''audio/mp4'', file_size = 1\<rparr>)]) =
     ([], error_response 400 (UnsupportedFormat (js ''audio/mp4'')))"
proof -
  let ?svc = "Threw \<lparr>err_status = Some 429, err_code = None, err_message = None\<rparr>"
  let ?f = "\<lparr>file_name = js ''clip.mpg'', file_type = js ''video/mpeg'', file_size = 1\<rparr>"
  let ?g = "\<lparr>file_name = js ''clip.mp4'', file_type = js ''audio/mp4'', file_size = 1\<rparr>"
  have a: "audio_of [(js ''audio'', FileEntry h)] = AFile h" for h
    by (simp add: audio_of_def form_get_def)
  have "type_accepted (file_type ?f)"
    by (simp add: type_accepted_iff js_def)
  moreover have "file_size ?f \<le> maxSize"
    by (simp add: maxSize_def)
  moreover have "\<not> language_is_file [(js ''audio'', FileEntry ?f)]"
    by (simp add: language_is_file_def language_of_def form_get_def js_def)
  ultimately have "called_service (fst (POST lower_ascii ?svc (FormData [(js ''audio'', FileEntry ?f)])))"
    using POST_valid [of _ ?f lower_ascii ?svc, OF a] by (auto simp: called_service_def is_call_def)
  moreover have "\<not> type_accepted (file_type ?g)"
    by (simp add: type_accepted_iff js_def)
  then have "POST lower_ascii ?svc (FormData [(js ''audio'', FileEntry ?g)]) =
      ([], error_response 400 (UnsupportedFormat (js ''audio/mp4'')))"
    using POST_unsupported [of _ ?g lower_ascii ?svc, OF a] by simp
  ultimately show ?thesis by simp
qed

lemma POST2_disk:
  assumes "audio_of fd = AFile f" and "file_type f \<in> set allowedTypes"
    and "file_size f \<le> maxSize" and "\<not> language_is_file fd"
  shows "disk_after (fst (POST2 lower now None (Threw e) (FormData fd))) files =
           List.insert (TempPath now (file_name f)) files"
    and "disk_after (fst (POST2 lower now None (Transcribed tr) (FormData fd))) files =
           removeAll (TempPath now (file_name f)) files"
  using assms
  by (cases "language_of fd"; simp add: POST2_def Let_def disk_after_def List.insert_def
      language_is_file_def)+

text \<open>
  Claim C6 fails on the code. A valid upload \<open>clip.wav\<close> is written to its temporary file;
  the transcription service answers 429; the handler returns 429 from its \<^verbatim>\<open>catch\<close> block
  and the file is still there. When the service succeeds instead, the file is unlinked.
  The form has no language, so the engine's lower-casing plays no part.
\<close>

theorem temp_file_left_on_failure:
  "disk_after
     (fst (POST2 lower 1700000000000 None
        (Threw \<lparr>err_status = Some 429, err_code = None, err_message = None\<rparr>)
        (FormData [(js ''audio'',
           FileEntry \<lparr>file_name = js ''clip.wav'', file_type = js ''audio/wav'', file_size = 3\<rparr>)])))
     [] = [TempPath 1700000000000 (js ''clip.wav'')]
   \<and> status
     (snd (POST2 lower 1700000000000 None
        (Threw \<lparr>err_status = Some 429, err_code = None, err_message = None\<rparr>)
        (FormData [(js ''audio'',
           FileEntry \<lparr>file_name = js ''clip.wav'', file_type = js ''audio/wav'', file_size = 3\<rparr>)])))
     = 429
   \<and> disk_after
     (fst (POST2 lower 1700000000000 None
        (Transcribed \<lparr>t_text = js ''hello'', t_language = None, t_duration = 1, t_segments = []\<rparr>)
        (FormData [(js ''audio'',
           FileEntry \<lparr>file_name = js ''clip.wav'', file_type = js ''audio/wav'', file_size = 3\<rparr>)])))
     [] = []"
proof -
  let ?f = "\<lparr>file_name = js ''clip.wav'', file_type = js ''audio/wav'', file_size = 3\<rparr>"
  let ?fd = "[(js ''audio'', FileEntry ?f)]"
  have a: "audio_of ?fd = AFile ?f"
    by (simp add: audio_of_def form_get_def)
  have t: "file_type ?f \<in> set allowedTypes"
    by (simp add: allowedTypes_def)
  have m: "file_size ?f \<le> maxSize"
    by (simp add: maxSize_def)
  have l: "\<not> language_is_file ?fd"
    by (simp add: language_is_file_def language_of_def form_get_def js_def)
  have n: "language_of ?fd = NoLanguage"
    by (simp add: language_of_def form_get_def js_def)
  have s: "status (snd (POST2 lower 1700000000000 None
        (Threw \<lparr>err_status = Some 429, err_code = None, err_message = None\<rparr>) (FormData ?fd))) = 429"
    using a t m n by (simp add: POST2_def Let_def handle_error2_def error_response_def)
  show ?thesis
    using POST2_disk [OF a t m l, of lower 1700000000000 _ "[]"] s by simp
qed

section \<open>Capture and transcription request: facts and claims\<close>

lemma no_request_in_resolution:
  "filter (\<lambda>a. \<exists>fd. a = PostTranscribe fd) (processBusinessLogic lower d t) = []"
  by (cases d)
    (simp_all add: processBusinessLogic_def delegate_def Let_def split: option.splits)

lemma one_request_per_send:
  "filter (\<lambda>a. \<exists>fd. a = PostTranscribe fd)
     (sendToWhisper lower outcome d language audioBlob) =
     [PostTranscribe (transcribe_form language audioBlob)]"
  by (cases outcome) (simp_all add: sendToWhisper_def no_request_in_resolution)

lemma one_request_per_session:
  "filter (\<lambda>a. \<exists>fd. a = PostTranscribe fd) (onstop lower outcome d r c) =
     [PostTranscribe (transcribe_form (rec_language r)
        \<lparr>blob_type = rec_mime r, blob_size = sum_list (map blob_size (audioChunksRef c))\<rparr>)]"
  by (simp add: onstop_def Let_def one_request_per_send split: option.splits)

lemma form_has_no_audio: "form_get (js ''audio'') (transcribe_form language audioBlob) = None"
  by (simp add: transcribe_form_def form_get_def js_def)

lemma gateway_rejects_console_form:
  "POST lower service (FormData (transcribe_form language audioBlob)) =
     ([], error_response 400 MissingAudio)"
  "POST2 lower now w service (FormData (transcribe_form language audioBlob)) =
     ([], error_response 400 MissingAudio)"
  by (simp_all add: POST_def POST2_def audio_of_def form_has_no_audio)

text \<open>
  Claim C4 fails on the code. A completed session with a clip of three bytes, recorded
  with the language left at \<open>auto\<close>, emits one request, but its multipart body carries the
  clip under the field \<open>file\<close> and has no field \<open>audio\<close>: the route, which reads \<open>audio\<close>,
  finds no audio in it, and answers every such body with 400 \<open>MissingAudio\<close>
  (\<open>gateway_rejects_console_form\<close>).
\<close>

theorem transcription_request_field:
  "filter (\<lambda>a. \<exists>fd. a = PostTranscribe fd)
     (onstop lower NotOk FetchRejected
        \<lparr>rec_stream = 1, rec_mime = js ''audio/webm;codecs=opus'', rec_language = js ''auto''\<rparr>
        (initial\<lparr>audioChunksRef := [\<lparr>blob_type = js ''audio/webm;codecs=opus'', blob_size = 3\<rparr>]\<rparr>)) =
     [PostTranscribe
        [(js ''file'',
          FileEntry \<lparr>file_name = js ''recording.webm'',
                     file_type = js ''audio/webm;codecs=opus'', file_size = 3\<rparr>)]]
   \<and> form_get (js ''audio'')
        [(js ''file'',
          FileEntry \<lparr>file_name = js ''recording.webm'',
                     file_type = js ''audio/webm;codecs=opus'', file_size = 3\<rparr>)] = None
   \<and> audio_of
        [(js ''file'',
          FileEntry \<lparr>file_name = js ''recording.webm'',
                     file_type = js ''audio/webm;codecs=opus'', file_size = 3\<rparr>)] = NoAudio"
proof -
  let ?b = "\<lparr>blob_type = js ''audio/webm;codecs=opus'', blob_size = 3\<rparr>"
  have f: "transcribe_form (js ''auto'') ?b =
      [(js ''file'',
        FileEntry \<lparr>file_name = js ''recording.webm'',
                   file_type = js ''audio/webm;codecs=opus'', file_size = 3\<rparr>)]"
    by (simp add: transcribe_form_def)
  have g: "audio_of (transcribe_form (js ''auto'') ?b) = NoAudio"
    by (simp add: audio_of_def form_has_no_audio)
  show ?thesis
    using one_request_per_session
        [of lower NotOk FetchRejected
          "\<lparr>rec_stream = 1, rec_mime = js ''audio/webm;codecs=opus'', rec_language = js ''auto''\<rparr>"
          "initial\<lparr>audioChunksRef := [?b]\<rparr>"]
      form_has_no_audio [of "js ''auto''" ?b] g
    by (simp add: f initial_def)
qed

lemma startRecording_granted:
  "media env = Granted s \<Longrightarrow> recorder_error env = None \<Longrightarrow>
   startRecording env c =
     [SetError None, SetTranscript (Some []), SetReply [], SetShowExplanation False,
      SetDetectedLanguage [], GetUserMedia (Some s), AssignStreamRef s,
      AssignRecorderRef \<lparr>rec_stream = s,
         rec_mime = (if opus_supported env then js ''audio/webm;codecs=opus''
                     else js ''audio/webm''),
         rec_language = selectedLanguage c\<rparr>,
      ResetChunks,
      RecorderStart \<lparr>rec_stream = s,
         rec_mime = (if opus_supported env then js ''audio/webm;codecs=opus''
                     else js ''audio/webm''),
         rec_language = selectedLanguage c\<rparr>,
      SetIsRecording True]"
  by (simp add: startRecording_def Let_def)

lemma stopRecording_guard:
  "\<not> isRecording c \<Longrightarrow> stopRecording c = []"
  "mediaRecorderRef c = None \<Longrightarrow> stopRecording c = []"
  by (simp_all add: stopRecording_def split: option.splits)

text \<open>
  Claim C7, as amended. \<open>startRecording\<close> does not look at \<open>isRecording\<close>. In every state,
  also while a session is active, when the microphone is granted and the recorder is
  constructed it clears the error, the transcript, the reply, the explanation flag and the
  detected language, obtains a new stream and creates and starts a new recorder, puts both
  in the refs in place of the previous ones, empties the chunks and sets \<open>isRecording\<close>.
  The stream and the recorder of the session that was active stay live.
\<close>

theorem startRecording_unguarded:
  "media env = Granted s \<and> recorder_error env = None \<longrightarrow>
     (let r = \<lparr>rec_stream = s,
                rec_mime = (if opus_supported env then js ''audio/webm;codecs=opus''
                            else js ''audio/webm''),
                rec_language = selectedLanguage c\<rparr>;
          c' = run (startRecording env c) c
      in GetUserMedia (Some s) \<in> set (startRecording env c)
         \<and> RecorderStart r \<in> set (startRecording env c)
         \<and> live_streams c' = live_streams c @ [s]
         \<and> recording c' = recording c @ [r]
         \<and> streamRef c' = Some s
         \<and> mediaRecorderRef c' = Some r
         \<and> audioChunksRef c' = []
         \<and> isRecording c'
         \<and> error c' = None \<and> transcript c' = Some [] \<and> reply c' = []
         \<and> \<not> showExplanation c' \<and> detectedLanguage c' = [])"
proof
  assume "media env = Granted s \<and> recorder_error env = None"
  then have "startRecording env c =
     [SetError None, SetTranscript (Some []), SetReply [], SetShowExplanation False,
      SetDetectedLanguage [], GetUserMedia (Some s), AssignStreamRef s,
      AssignRecorderRef \<lparr>rec_stream = s,
         rec_mime = (if opus_supported env then js ''audio/webm;codecs=opus''
                     else js ''audio/webm''),
         rec_language = selectedLanguage c\<rparr>,
      ResetChunks,
      RecorderStart \<lparr>rec_stream = s,
         rec_mime = (if opus_supported env then js ''audio/webm;codecs=opus''
                     else js ''audio/webm''),
         rec_language = selectedLanguage c\<rparr>,
      SetIsRecording True]"
    by (simp add: startRecording_granted)
  then show "let r = \<lparr>rec_stream = s,
                rec_mime = (if opus_supported env then js ''audio/webm;codecs=opus''
                            else js ''audio/webm''),
                rec_language = selectedLanguage c\<rparr>;
          c' = run (startRecording env c) c
      in GetUserMedia (Some s) \<in> set (startRecording env c)
         \<and> RecorderStart r \<in> set (startRecording env c)
         \<and> live_streams c' = live_streams c @ [s]
         \<and> recording c' = recording c @ [r]
         \<and> streamRef c' = Some s
         \<and> mediaRecorderRef c' = Some r
         \<and> audioChunksRef c' = []
         \<and> isRecording c'
         \<and> error c' = None \<and> transcript c' = Some [] \<and> reply c' = []
         \<and> \<not> showExplanation c' \<and> detectedLanguage c' = []"
    by (simp add: Let_def run_Cons run_Nil)
qed

text \<open>
  The console after a first press from the initial state, with stream 10 granted: a
  capture session is active.
\<close>

lemma active_session:
  "run (startRecording \<lparr>media = Granted 10, opus_supported = True, recorder_error = None\<rparr>
         initial) initial =
     initial\<lparr>isRecording := True, streamRef := Some 10,
       mediaRecorderRef :=
         Some \<lparr>rec_stream = 10, rec_mime = js ''audio/webm;codecs=opus'',
               rec_language = js ''auto''\<rparr>,
       live_streams := [10],
       recording :=
         [\<lparr>rec_stream = 10, rec_mime = js ''audio/webm;codecs=opus'',
           rec_language = js ''auto''\<rparr>]\<rparr>"
  by (simp add: startRecording_def Let_def run_Cons run_Nil initial_def)

theorem startRecording_unguarded_witness:
  "media \<lparr>media = Granted 11, opus_supported = False, recorder_error = None\<rparr> = Granted 11
   \<and> recorder_error \<lparr>media = Granted 11, opus_supported = False, recorder_error = None\<rparr> = None
   \<and> isRecording
        (initial\<lparr>isRecording := True, streamRef := Some 10, live_streams := [10]\<rparr>)
   \<and> streamRef
        (run (startRecording \<lparr>media = Granted 11, opus_supported = False, recorder_error = None\<rparr>
                (initial\<lparr>isRecording := True, streamRef := Some 10, live_streams := [10]\<rparr>))
           (initial\<lparr>isRecording := True, streamRef := Some 10, live_streams := [10]\<rparr>)) = Some 11
   \<and> live_streams
        (run (startRecording \<lparr>media = Granted 11, opus_supported = False, recorder_error = None\<rparr>
                (initial\<lparr>isRecording := True, streamRef := Some 10, live_streams := [10]\<rparr>))
           (initial\<lparr>isRecording := True, streamRef := Some 10, live_streams := [10]\<rparr>)) =
       [10, 11]"
  using startRecording_unguarded
    [of "\<lparr>media = Granted 11, opus_supported = False, recorder_error = None\<rparr>" 11
      "initial\<lparr>isRecording := True, streamRef := Some 10, live_streams := [10]\<rparr>"]
  by (simp add: Let_def)

theorem startRecording_while_recording_counterexample:
  "isRecording
     (run (startRecording \<lparr>media = Granted 10, opus_supported = True, recorder_error = None\<rparr>
             initial) initial)
   \<and> GetUserMedia (Some 11)
       \<in> set (startRecording \<lparr>media = Granted 11, opus_supported = True, recorder_error = None\<rparr>
                (run (startRecording
                        \<lparr>media = Granted 10, opus_supported = True, recorder_error = None\<rparr>
                        initial) initial))
   \<and> run (startRecording \<lparr>media = Granted 11, opus_supported = True, recorder_error = None\<rparr>
            (run (startRecording
                    \<lparr>media = Granted 10, opus_supported = True, recorder_error = None\<rparr>
                    initial) initial))
       (run (startRecording \<lparr>media = Granted 10, opus_supported = True, recorder_error = None\<rparr>
               initial) initial)
     \<noteq> run (startRecording \<lparr>media = Granted 10, opus_supported = True, recorder_error = None\<rparr>
              initial) initial
   \<and> length (recording
       (run (startRecording \<lparr>media = Granted 11, opus_supported = True, recorder_error = None\<rparr>
               (run (startRecording
                       \<lparr>media = Granted 10, opus_supported = True, recorder_error = None\<rparr>
                       initial) initial))
          (run (startRecording \<lparr>media = Granted 10, opus_supported = True, recorder_error = None\<rparr>
                  initial) initial))) = 2"
proof -
  let ?c1 = "run (startRecording \<lparr>media = Granted 10, opus_supported = True, recorder_error = None\<rparr>
        initial) initial"
  let ?e2 = "\<lparr>media = Granted 11, opus_supported = True, recorder_error = None\<rparr>"
  have a: "isRecording ?c1" by (simp add: active_session)
  have b: "GetUserMedia (Some 11) \<in> set (startRecording ?e2 ?c1)"
    by (simp add: startRecording_def Let_def)
  have s1: "streamRef ?c1 = Some 10" by (simp add: active_session)
  have s2: "streamRef (run (startRecording ?e2 ?c1) ?c1) = Some 11"
    using startRecording_granted [of ?e2 11 ?c1] by (simp add: run_Cons run_Nil)
  have c: "run (startRecording ?e2 ?c1) ?c1 \<noteq> ?c1"
  proof
    assume "run (startRecording ?e2 ?c1) ?c1 = ?c1"
    then have "streamRef (run (startRecording ?e2 ?c1) ?c1) = streamRef ?c1" by simp
    with s1 s2 show False by simp
  qed
  have r1: "length (recording ?c1) = 1" by (simp add: active_session)
  have d: "length (recording (run (startRecording ?e2 ?c1) ?c1)) = 2"
    using startRecording_granted [of ?e2 11 ?c1] r1 by (simp add: run_Cons run_Nil)
  from a b c d show ?thesis by blast
qed

section \<open>Speech output: facts and claims\<close>

lemma perform_queue:
  "(\<forall>u. a \<noteq> SynthSpeak u) \<Longrightarrow> length (synth_queue (perform a c)) \<le> length (synth_queue c)"
proof (cases a)
  case (GetUserMedia x)
  then show ?thesis by (cases x) simp_all
qed simp_all

lemma run_queue:
  "(\<forall>u. SynthSpeak u \<notin> set acts) \<Longrightarrow>
   length (synth_queue (run acts c)) \<le> length (synth_queue c)"
proof (induction acts arbitrary: c)
  case Nil
  then show ?case by (simp add: run_Nil)
next
  case (Cons a acts)
  from Cons.prems have a: "\<forall>u. a \<noteq> SynthSpeak u" and rest: "\<forall>u. SynthSpeak u \<notin> set acts"
    by auto
  have "length (synth_queue (run acts (perform a c))) \<le> length (synth_queue (perform a c))"
    using rest by (rule Cons.IH)
  also have "\<dots> \<le> length (synth_queue c)"
    using a by (rule perform_queue)
  finally show ?case by (simp add: run_Cons)
qed

lemma resolution_speak_free: "SynthSpeak u \<notin> set (processBusinessLogic lower d t)"
  by (cases d)
    (simp_all add: processBusinessLogic_def delegate_def Let_def split: option.splits)

lemma send_speak_free: "SynthSpeak u \<notin> set (sendToWhisper lower outcome d l b)"
  by (cases outcome) (simp_all add: sendToWhisper_def resolution_speak_free)

lemma start_speak_free: "SynthSpeak u \<notin> set (startRecording env c)"
  by (simp add: startRecording_def Let_def split: media_outcome.splits option.splits)

lemma handler_speak_free: "SynthSpeak u \<notin> set (handler lower ev c)"
proof (cases ev)
  case (Press env)
  then show ?thesis by (simp add: handler_def start_speak_free)
next
  case Release
  then show ?thesis by (simp add: handler_def stopRecording_def split: option.splits)
next
  case (DataAvailable data)
  then show ?thesis by (simp add: handler_def ondataavailable_def)
next
  case (Stopped outcome d r)
  then show ?thesis
    by (simp add: handler_def onstop_def Let_def send_speak_free split: option.splits)
next
  case Reset
  then show ?thesis by (simp add: handler_def handleReset_def)
qed (simp_all add: handler_def)

lemma platform_queue: "length (synth_queue (platform ev c)) \<le> length (synth_queue c)"
  by (cases ev) (simp_all add: platform_def)

lemma tts_effect_speaks:
  "r \<noteq> [] \<Longrightarrow>
   tts_effect lower (Voices vs) r =
     [AssignUtteranceRef \<lparr>u_text = r, u_voice = select_voice lower vs r\<rparr>, SynthCancel,
      SynthSpeak \<lparr>u_text = r, u_voice = select_voice lower vs r\<rparr>, SetIsPlaying True]"
  by (simp add: tts_effect_def Let_def)

lemma tts_effect_queue:
  "length (synth_queue c) \<le> 1 \<Longrightarrow> length (synth_queue (run (tts_effect lower env r) c)) \<le> 1"
  by (cases env) (simp_all add: tts_effect_def Let_def run_Cons run_Nil)

lemma render_queue:
  "length (synth_queue c) \<le> 1 \<Longrightarrow> length (synth_queue (render lower env p c)) \<le> 1"
  using tts_effect_queue [of c lower env "reply c"] by (simp add: render_def)

lemma step_queue:
  assumes "length (synth_queue c) \<le> 1"
  shows "length (synth_queue (step lower env ev c)) \<le> 1"
proof -
  have "length (synth_queue (run (handler lower ev c) (platform ev c)))
      \<le> length (synth_queue (platform ev c))"
    by (rule run_queue) (simp add: handler_speak_free)
  also have "\<dots> \<le> length (synth_queue c)" by (rule platform_queue)
  finally have "length (synth_queue (run (handler lower ev c) (platform ev c))) \<le> 1"
    using assms by simp
  then show ?thesis unfolding step_def by (rule render_queue)
qed

lemma steps_queue:
  "length (synth_queue c) \<le> 1 \<Longrightarrow> length (synth_queue (steps lower env evs c)) \<le> 1"
proof (induction evs arbitrary: c)
  case Nil
  then show ?case by (simp add: steps_def)
next
  case (Cons ev evs)
  from Cons.prems have "length (synth_queue (step lower env ev c)) \<le> 1" by (rule step_queue)
  then have "length (synth_queue (steps lower env evs (step lower env ev c))) \<le> 1" by (rule Cons.IH)
  then show ?case by (simp add: steps_def)
qed

lemma run_effect_reply: "reply (run (tts_effect lower env r) c) = reply c"
  by (cases env) (simp_all add: tts_effect_def Let_def run_Cons run_Nil)

lemma render_reply: "reply (render lower env p c) = reply c"
  by (simp add: render_def run_effect_reply)

lemma render_speaks:
  assumes "reply c \<noteq> p" and "reply c \<noteq> []"
  shows "synth_queue (render lower (Voices vs) p c) =
     [\<lparr>u_text = reply c, u_voice = select_voice lower vs (reply c)\<rparr>]"
  using assms by (simp add: render_def tts_effect_speaks run_Cons run_Nil)

lemma reply_after_start: "reply (run (startRecording env c) c') = []"
  by (simp add: startRecording_def Let_def run_Cons run_Nil run_append
      split: media_outcome.splits option.splits)

lemma reply_after_stop: "reply (run (stopRecording c) c') = reply c'"
  by (simp add: stopRecording_def run_Cons run_Nil split: option.splits)

lemma reply_after_onstop:
  "reply (run (onstop lower (Json t) d r c) c') =
     reply (run (processBusinessLogic lower d t)
       (run [SetIsLoading True,
             PostTranscribe (transcribe_form (rec_language r)
               \<lparr>blob_type = rec_mime r, blob_size = sum_list (map blob_size (audioChunksRef c))\<rparr>),
             SetTranscript (Some t),
             SetTranscriptionDuration
               (of_nat (sum_list (map blob_size (audioChunksRef c))) / 10000)] c'))"
  by (simp add: onstop_def sendToWhisper_def Let_def run_Cons run_Nil run_append
      split: option.splits)

lemma press_release_stopped:
  assumes "trim t \<noteq> []"
  shows "reply (steps lower (Voices vs) [Press cenv, Release, Stopped (Json t) d r] c) \<noteq> []
    \<and> synth_queue (steps lower (Voices vs) [Press cenv, Release, Stopped (Json t) d r] c) =
        [\<lparr>u_text = reply (steps lower (Voices vs) [Press cenv, Release, Stopped (Json t) d r] c),
          u_voice = select_voice lower vs
            (reply (steps lower (Voices vs) [Press cenv, Release, Stopped (Json t) d r] c))\<rparr>]"
proof -
  let ?env = "Voices vs"
  let ?c1 = "step lower ?env (Press cenv) c"
  let ?c2 = "step lower ?env Release ?c1"
  let ?h = "run (handler lower (Stopped (Json t) d r) ?c2) (platform (Stopped (Json t) d r) ?c2)"
  have r1: "reply ?c1 = []"
    by (simp add: step_def render_reply handler_def platform_def reply_after_start)
  have r2: "reply ?c2 = []"
    by (simp add: step_def render_reply handler_def platform_def reply_after_stop
        reply_after_start)
  have r3: "reply ?h \<noteq> []"
    using assms reply_after_resolution
    by (simp add: handler_def platform_def reply_after_onstop)
  have s: "steps lower ?env [Press cenv, Release, Stopped (Json t) d r] c = render lower ?env (reply ?c2) ?h"
    by (simp add: steps_def step_def)
  have "reply ?h \<noteq> reply ?c2" using r2 r3 by simp
  then have "synth_queue (render lower ?env (reply ?c2) ?h) =
      [\<lparr>u_text = reply ?h, u_voice = select_voice lower vs (reply ?h)\<rparr>]"
    using r3 by (rule render_speaks)
  then show ?thesis
    using r3 by (simp only: s render_reply) simp
qed

text \<open>
  Claim C8. Whenever the effect speaks (the reply is not empty and the browser has speech
  synthesis), it cancels the synthesiser immediately before it speaks, so that afterwards
  the queue holds the new utterance and nothing else. Over every sequence of events of the
  console the queue never holds more than one utterance. In particular, from any state
  (also with an utterance of the previous turn playing), a press, a release and the end
  of the recording with a transcript that is not blank leave exactly the utterance of the
  new reply in the queue.
\<close>

theorem speech_single_flight:
  "(r \<noteq> [] \<longrightarrow>
      tts_effect lower (Voices vs) r =
        [AssignUtteranceRef \<lparr>u_text = r, u_voice = select_voice lower vs r\<rparr>, SynthCancel,
         SynthSpeak \<lparr>u_text = r, u_voice = select_voice lower vs r\<rparr>, SetIsPlaying True]
      \<and> synth_queue (run (tts_effect lower (Voices vs) r) c) =
          [\<lparr>u_text = r, u_voice = select_voice lower vs r\<rparr>])
   \<and> (length (synth_queue c) \<le> 1 \<longrightarrow> length (synth_queue (steps lower env evs c)) \<le> 1)
   \<and> (trim t \<noteq> [] \<longrightarrow>
      reply (steps lower (Voices vs) [Press cenv, Release, Stopped (Json t) d rec] c) \<noteq> []
      \<and> synth_queue (steps lower (Voices vs) [Press cenv, Release, Stopped (Json t) d rec] c) =
          [\<lparr>u_text = reply (steps lower (Voices vs) [Press cenv, Release, Stopped (Json t) d rec] c),
            u_voice = select_voice lower vs
              (reply (steps lower (Voices vs) [Press cenv, Release, Stopped (Json t) d rec] c))\<rparr>])"
proof (intro conjI impI)
  assume "r \<noteq> []"
  then show "tts_effect lower (Voices vs) r =
        [AssignUtteranceRef \<lparr>u_text = r, u_voice = select_voice lower vs r\<rparr>, SynthCancel,
         SynthSpeak \<lparr>u_text = r, u_voice = select_voice lower vs r\<rparr>, SetIsPlaying True]"
    by (rule tts_effect_speaks)
next
  assume "r \<noteq> []"
  then show "synth_queue (run (tts_effect lower (Voices vs) r) c) =
          [\<lparr>u_text = r, u_voice = select_voice lower vs r\<rparr>]"
    by (simp add: tts_effect_speaks run_Cons run_Nil)
next
  assume "length (synth_queue c) \<le> 1"
  then show "length (synth_queue (steps lower env evs c)) \<le> 1"
    by (rule steps_queue)
next
  assume "trim t \<noteq> []"
  then show "reply (steps lower (Voices vs) [Press cenv, Release, Stopped (Json t) d rec] c) \<noteq> []"
    using press_release_stopped [of t lower vs cenv d rec c] by blast
next
  assume "trim t \<noteq> []"
  then show "synth_queue (steps lower (Voices vs) [Press cenv, Release, Stopped (Json t) d rec] c) =
          [\<lparr>u_text = reply (steps lower (Voices vs) [Press cenv, Release, Stopped (Json t) d rec] c),
            u_voice = select_voice lower vs
              (reply (steps lower (Voices vs) [Press cenv, Release, Stopped (Json t) d rec] c))\<rparr>]"
    using press_release_stopped [of t lower vs cenv d rec c] by blast
qed

theorem speech_single_flight_witness:
  "js ''Hi'' \<noteq> []
   \<and> synth_queue (run (tts_effect lower_ascii (Voices []) (js ''Hi''))
        (initial\<lparr>synth_queue := [\<lparr>u_text = js ''Old'', u_voice = None\<rparr>]\<rparr>)) =
       [\<lparr>u_text = js ''Hi'', u_voice = select_voice lower_ascii [] (js ''Hi'')\<rparr>]
   \<and> length (synth_queue (initial\<lparr>synth_queue := [\<lparr>u_text = js ''Old'', u_voice = None\<rparr>]\<rparr>)) \<le> 1
   \<and> length (synth_queue (steps lower_ascii (Voices []) [Reset, UtteranceEnded]
        (initial\<lparr>synth_queue := [\<lparr>u_text = js ''Old'', u_voice = None\<rparr>]\<rparr>))) \<le> 1
   \<and> trim (js ''hello'') \<noteq> []
   \<and> reply (steps lower_ascii (Voices [])
        [Press \<lparr>media = Granted 10, opus_supported = True, recorder_error = None\<rparr>, Release,
         Stopped (Json (js ''hello'')) FetchRejected
           \<lparr>rec_stream = 10, rec_mime = js ''audio/webm;codecs=opus'',
             rec_language = js ''auto''\<rparr>]
        (initial\<lparr>synth_queue := [\<lparr>u_text = js ''Old'', u_voice = None\<rparr>]\<rparr>)) \<noteq> []"
proof -
  let ?c = "initial\<lparr>synth_queue := [\<lparr>u_text = js ''Old'', u_voice = None\<rparr>]\<rparr>"
  have a: "js ''Hi'' \<noteq> []" by (simp add: js_def)
  have b: "length (synth_queue ?c) \<le> 1" by simp
  note u1 = speech_single_flight [of "js ''Hi''" lower_ascii "[]" ?c, THEN conjunct1]
  note u2 = speech_single_flight [of _ lower_ascii _ ?c "Voices []" "[Reset, UtteranceEnded]",
      THEN conjunct2, THEN conjunct1]
  note u3 = speech_single_flight [of _ lower_ascii "[]" ?c _ _ "js ''hello''"
      "\<lparr>media = Granted 10, opus_supported = True, recorder_error = None\<rparr>" FetchRejected
      "\<lparr>rec_stream = 10, rec_mime = js ''audio/webm;codecs=opus'',
             rec_language = js ''auto''\<rparr>",
      THEN conjunct2, THEN conjunct2]
  show ?thesis
    using a b hello_nonblank u1 u2 u3 by blast
qed

end
